theory Spec2Isabelle
  imports Complex_Main "HOL-Library.Multiset"
begin

section \<open>JavaScript numbers\<close>

text \<open>
  A JavaScript number is an IEEE double. The handlers of \<^verbatim>\<open>server.js\<close> test numbers with
  \<^verbatim>\<open>isNaN\<close>, compare them with \<^verbatim>\<open><\<close>, \<^verbatim>\<open>>\<close>, \<^verbatim>\<open>>=\<close> and divide by values
  that may be zero, so the special values are part of the model: \<open>NaN\<close>, \<open>PInf\<close>
  (\<^verbatim>\<open>Infinity\<close>) and \<open>NInf\<close> (\<^verbatim>\<open>-Infinity\<close>). A finite double is modelled by the real
  it denotes; rounding, overflow of finite results and the sign of zero are not modelled.
\<close>

datatype jsnum = NaN | PInf | NInf | Fin real

fun isNaN :: "jsnum \<Rightarrow> bool" where
  "isNaN NaN = True"
| "isNaN _ = False"

fun isFinite :: "jsnum \<Rightarrow> bool" where
  "isFinite (Fin _) = True"
| "isFinite _ = False"

fun js_neg :: "jsnum \<Rightarrow> jsnum" where
  "js_neg NaN = NaN"
| "js_neg PInf = NInf"
| "js_neg NInf = PInf"
| "js_neg (Fin a) = Fin (- a)"

fun js_add :: "jsnum \<Rightarrow> jsnum \<Rightarrow> jsnum" where
  "js_add (Fin a) (Fin b) = Fin (a + b)"
| "js_add NaN _ = NaN"
| "js_add _ NaN = NaN"
| "js_add PInf NInf = NaN"
| "js_add NInf PInf = NaN"
| "js_add PInf _ = PInf"
| "js_add _ PInf = PInf"
| "js_add NInf _ = NInf"
| "js_add _ NInf = NInf"

definition js_sub :: "jsnum \<Rightarrow> jsnum \<Rightarrow> jsnum" where
  "js_sub a b = js_add a (js_neg b)"

fun js_mul :: "jsnum \<Rightarrow> jsnum \<Rightarrow> jsnum" where
  "js_mul (Fin a) (Fin b) = Fin (a * b)"
| "js_mul NaN _ = NaN"
| "js_mul _ NaN = NaN"
| "js_mul PInf (Fin b) = (if b = 0 then NaN else if 0 < b then PInf else NInf)"
| "js_mul NInf (Fin b) = (if b = 0 then NaN else if 0 < b then NInf else PInf)"
| "js_mul (Fin a) PInf = (if a = 0 then NaN else if 0 < a then PInf else NInf)"
| "js_mul (Fin a) NInf = (if a = 0 then NaN else if 0 < a then NInf else PInf)"
| "js_mul PInf PInf = PInf"
| "js_mul PInf NInf = NInf"
| "js_mul NInf PInf = NInf"
| "js_mul NInf NInf = PInf"

fun js_div :: "jsnum \<Rightarrow> jsnum \<Rightarrow> jsnum" where
  "js_div (Fin a) (Fin b) =
     (if b = 0 then (if a = 0 then NaN else if 0 < a then PInf else NInf) else Fin (a / b))"
| "js_div NaN _ = NaN"
| "js_div _ NaN = NaN"
| "js_div (Fin a) PInf = Fin 0"
| "js_div (Fin a) NInf = Fin 0"
| "js_div PInf (Fin b) = (if 0 \<le> b then PInf else NInf)"
| "js_div NInf (Fin b) = (if 0 \<le> b then NInf else PInf)"
| "js_div PInf PInf = NaN"
| "js_div PInf NInf = NaN"
| "js_div NInf PInf = NaN"
| "js_div NInf NInf = NaN"

text \<open>\<^verbatim>\<open>Math.abs\<close>.\<close>

fun js_abs :: "jsnum \<Rightarrow> jsnum" where
  "js_abs NaN = NaN"
| "js_abs PInf = PInf"
| "js_abs NInf = PInf"
| "js_abs (Fin a) = Fin \<bar>a\<bar>"

text \<open>The relational operators: every comparison with \<open>NaN\<close> is false.\<close>

fun js_lt :: "jsnum \<Rightarrow> jsnum \<Rightarrow> bool" where
  "js_lt (Fin a) (Fin b) = (a < b)"
| "js_lt NaN _ = False"
| "js_lt _ NaN = False"
| "js_lt NInf NInf = False"
| "js_lt NInf _ = True"
| "js_lt PInf _ = False"
| "js_lt (Fin a) PInf = True"
| "js_lt (Fin a) NInf = False"

definition js_gt :: "jsnum \<Rightarrow> jsnum \<Rightarrow> bool" where
  "js_gt a b = js_lt b a"

text \<open>\<^verbatim>\<open>===\<close> on numbers.\<close>

definition js_eq :: "jsnum \<Rightarrow> jsnum \<Rightarrow> bool" where
  "js_eq a b = (\<not> isNaN a \<and> a = b)"

definition js_le :: "jsnum \<Rightarrow> jsnum \<Rightarrow> bool" where
  "js_le a b = (js_lt a b \<or> js_eq a b)"

definition js_ge :: "jsnum \<Rightarrow> jsnum \<Rightarrow> bool" where
  "js_ge a b = js_le b a"

text \<open>
  The percent change as every handler writes it:
  \<^verbatim>\<open>((current - previous) / previous) * 100\<close>.
\<close>

definition pctChange :: "jsnum \<Rightarrow> jsnum \<Rightarrow> jsnum" where
  "pctChange current previous = js_mul (js_div (js_sub current previous) previous) (Fin 100)"

section \<open>JSON values\<close>

text \<open>
  The values found in provider responses and in the objects the handlers build.
  \<open>JUndef\<close> is \<^verbatim>\<open>undefined\<close> (an absent property), \<open>JDate t\<close> a \<^verbatim>\<open>Date\<close> with time
  value \<open>t\<close> in milliseconds.
\<close>

datatype jsval = JUndef | JNull | JBool bool | JNum jsnum | JStr string | JDate int

text \<open>\<^verbatim>\<open>typeof v === "number"\<close>.\<close>

fun typeof_number :: "jsval \<Rightarrow> bool" where
  "typeof_number (JNum _) = True"
| "typeof_number _ = False"

text \<open>Truthiness, as \<^verbatim>\<open>!v\<close>, \<^verbatim>\<open>v || w\<close> and \<^verbatim>\<open>if (v)\<close> see it.\<close>

fun truthy :: "jsval \<Rightarrow> bool" where
  "truthy JUndef = False"
| "truthy JNull = False"
| "truthy (JBool b) = b"
| "truthy (JNum n) = (\<not> isNaN n \<and> n \<noteq> Fin 0)"
| "truthy (JStr s) = (s \<noteq> [])"
| "truthy (JDate _) = True"

section \<open>Strings and number formatting\<close>

text \<open>
  Strings are lists of characters. Case conversion and white space are modelled on
  ASCII, which covers every string the handlers compare against.
\<close>

definition isDigit :: "char \<Rightarrow> bool" where
  "isDigit c = (48 \<le> (of_char c :: nat) \<and> (of_char c :: nat) \<le> 57)"

definition isWhite :: "char \<Rightarrow> bool" where
  "isWhite c = ((of_char c :: nat) \<in> {9, 10, 11, 12, 13, 32})"

definition digitsVal :: "string \<Rightarrow> nat" where
  "digitsVal ds = foldl (\<lambda>acc c. 10 * acc + ((of_char c :: nat) - 48)) 0 ds"

fun digits :: "nat \<Rightarrow> string" where
  "digits n = (if n < 10 then [char_of (48 + n)] else digits (n div 10) @ [char_of (48 + n mod 10)])"

declare digits.simps [simp del]

text \<open>
  \<^verbatim>\<open>x.toFixed(f)\<close>: the sign, then the integer nearest to \<open>|x| * 10^f\<close> (the larger one
  on a tie) written with at least \<open>f + 1\<close> digits and a point before the last \<open>f\<close>.
  The exponent form that JavaScript uses from \<open>10^21\<close> on is not modelled.
\<close>

definition toFixed :: "nat \<Rightarrow> jsnum \<Rightarrow> string" where
  "toFixed f x =
     (case x of
        NaN \<Rightarrow> ''NaN''
      | PInf \<Rightarrow> ''Infinity''
      | NInf \<Rightarrow> ''-Infinity''
      | Fin r \<Rightarrow>
          (let n = nat \<lfloor>\<bar>r\<bar> * 10 ^ f + 1 / 2\<rfloor>;
               ds = digits n;
               m = replicate (f + 1 - length ds) (CHR ''0'') @ ds;
               k = length m - f
           in (if r < 0 then ''-'' else []) @
              (if f = 0 then m else take k m @ ''.'' @ drop k m)))"

text \<open>
  \<^verbatim>\<open>parseFloat\<close> on a string: leading white space, an optional sign, then
  \<^verbatim>\<open>Infinity\<close> or the longest decimal literal (digits, an optional fraction, an optional
  exponent); \<open>NaN\<close> when no digit is found. Whatever follows the literal is ignored.
\<close>

definition exponentPart :: "string \<Rightarrow> (bool \<times> nat) option" where
  "exponentPart r =
     (case r of
        [] \<Rightarrow> None
      | c # t \<Rightarrow>
          if c = CHR ''e'' \<or> c = CHR ''E'' then
            (let neg = (case t of d # _ \<Rightarrow> d = CHR ''-'' | [] \<Rightarrow> False);
                 u = (case t of d # v \<Rightarrow> if d = CHR ''+'' \<or> d = CHR ''-'' then v else t | [] \<Rightarrow> []);
                 ed = takeWhile isDigit u
             in if ed = [] then None else Some (neg, digitsVal ed))
          else None)"

definition parseFloat :: "string \<Rightarrow> jsnum" where
  "parseFloat s =
     (let t = dropWhile isWhite s;
          neg = (case t of c # _ \<Rightarrow> c = CHR ''-'' | [] \<Rightarrow> False);
          u = (case t of c # r \<Rightarrow> if c = CHR ''+'' \<or> c = CHR ''-'' then r else t | [] \<Rightarrow> [])
      in if take 8 u = ''Infinity'' then (if neg then NInf else PInf)
         else
           (let ip = takeWhile isDigit u;
                r1 = dropWhile isDigit u;
                fp = (case r1 of c # r \<Rightarrow> if c = CHR ''.'' then takeWhile isDigit r else [] | [] \<Rightarrow> []);
                r2 = (case r1 of c # r \<Rightarrow> if c = CHR ''.'' then dropWhile isDigit r else r1 | [] \<Rightarrow> []);
                mant = real (digitsVal ip) + real (digitsVal fp) / 10 ^ length fp;
                v = (case exponentPart r2 of
                       None \<Rightarrow> mant
                     | Some (eneg, e) \<Rightarrow> if eneg then mant / 10 ^ e else mant * 10 ^ e)
            in if ip = [] \<and> fp = [] then NaN else Fin (if neg then - v else v)))"

text \<open>
  \<^verbatim>\<open>parseFloat\<close> on any value: the argument is first converted to a string, so a number
  comes back as itself and \<^verbatim>\<open>undefined\<close>, \<^verbatim>\<open>null\<close>, booleans and dates give \<open>NaN\<close>.
\<close>

fun parseFloatV :: "jsval \<Rightarrow> jsnum" where
  "parseFloatV (JNum n) = n"
| "parseFloatV (JStr s) = parseFloat s"
| "parseFloatV _ = NaN"

section \<open>Mover records\<close>

record mover =
  name :: string
  symbol :: string
  performance :: string
  rawChange :: jsnum
  type :: string
  trend :: string

definition formatMover :: "string \<Rightarrow> string \<Rightarrow> jsnum \<Rightarrow> string \<Rightarrow> mover" where
  "formatMover nm smb pct ty =
     \<lparr> name = nm,
       symbol = smb,
       performance = (if js_ge pct (Fin 0) then ''+'' else []) @ toFixed 2 pct @ ''%'',
       rawChange = pct,
       type = ty,
       trend = (if js_ge pct (Fin 0) then ''positive'' else ''negative'') \<rparr>"

section \<open>The all-movers aggregator: deduplication and ranking\<close>

text \<open>
  A \<^verbatim>\<open>Map\<close> with string keys keeps its entries in insertion order; \<^verbatim>\<open>set\<close> on a key
  that is present replaces the value where it stands, on a new key it appends.
\<close>

type_synonym 'v jsmap = "(string \<times> 'v) list"

fun map_get :: "'v jsmap \<Rightarrow> string \<Rightarrow> 'v option" where
  "map_get [] k = None"
| "map_get ((k', v) # m) k = (if k' = k then Some v else map_get m k)"

fun map_set :: "'v jsmap \<Rightarrow> string \<Rightarrow> 'v \<Rightarrow> 'v jsmap" where
  "map_set [] k v = [(k, v)]"
| "map_set ((k', v') # m) k v = (if k' = k then (k, v) # m else (k', v') # map_set m k v)"

definition map_values :: "'v jsmap \<Rightarrow> 'v list" where
  "map_values m = map snd m"

text \<open>
  The body of \<^verbatim>\<open>combined.forEach\<close>: the item is stored when its symbol is new
  (\<^verbatim>\<open>!map.has(item.symbol)\<close>) or when its magnitude is strictly greater than the stored one.
\<close>

definition dedupStep :: "mover jsmap \<Rightarrow> mover \<Rightarrow> mover jsmap" where
  "dedupStep m item =
     (case map_get m (symbol item) of
        None \<Rightarrow> map_set m (symbol item) item
      | Some old \<Rightarrow>
          if js_gt (js_abs (rawChange item)) (js_abs (rawChange old))
          then map_set m (symbol item) item
          else m)"

definition dedupMovers :: "mover list \<Rightarrow> mover list" where
  "dedupMovers combined = map_values (foldl dedupStep [] combined)"

text \<open>
  \<^verbatim>\<open>Array.prototype.sort\<close> with a comparator. The sort is stable: an element moves behind
  a later one only when the comparator, called on the two, is positive; a comparator
  result of \<open>NaN\<close> counts as zero. For a consistent comparator every stable sort gives
  this result; it is written here as an insertion sort.
\<close>

fun insertBy :: "('a \<Rightarrow> 'a \<Rightarrow> jsnum) \<Rightarrow> 'a \<Rightarrow> 'a list \<Rightarrow> 'a list" where
  "insertBy cmp x [] = [x]"
| "insertBy cmp x (y # ys) =
     (if js_gt (cmp x y) (Fin 0) then y # insertBy cmp x ys else x # y # ys)"

fun sortBy :: "('a \<Rightarrow> 'a \<Rightarrow> jsnum) \<Rightarrow> 'a list \<Rightarrow> 'a list" where
  "sortBy cmp [] = []"
| "sortBy cmp (x # xs) = insertBy cmp x (sortBy cmp xs)"

text \<open>The comparator \<^verbatim>\<open>(a, b) => Math.abs(b.rawChange) - Math.abs(a.rawChange)\<close>.\<close>

definition byMagnitude :: "mover \<Rightarrow> mover \<Rightarrow> jsnum" where
  "byMagnitude a b = js_sub (js_abs (rawChange b)) (js_abs (rawChange a))"

text \<open>\<^verbatim>\<open>[...map.values()].sort(...).slice(0, 10)\<close>, on the values of the map.\<close>

definition rankMovers :: "mover list \<Rightarrow> mover list" where
  "rankMovers deduped = take 10 (sortBy byMagnitude deduped)"


section \<open>Provider responses\<close>

text \<open>
  What a handler sees of one Yahoo chart request, that is of
  \<^verbatim>\<open>http.get(...)\<close>, \<^verbatim>\<open>r.data.chart?.result?.[0]\<close> and
  \<^verbatim>\<open>data.indicators.quote[0].close\<close>: \<open>ChartThrow\<close> when the request or a property
  access throws (the enclosing \<^verbatim>\<open>try\<close> catches it), \<open>ChartNoData\<close> when \<^verbatim>\<open>data\<close> is
  falsy, and otherwise the array of closes as the provider sent it.
\<close>

datatype chart = ChartThrow | ChartNoData | ChartCloses "jsval list"

text \<open>One EODHD real-time quote: the raw \<^verbatim>\<open>close\<close> and \<^verbatim>\<open>previousClose\<close> of \<^verbatim>\<open>r.data\<close>.\<close>

datatype eod = EodThrow | EodNoData | EodQuote jsval jsval

text \<open>
  The EODHD screener: an element of the array is \<open>None\<close> when it is \<^verbatim>\<open>null\<close> (reading a
  property of it throws), otherwise its \<^verbatim>\<open>name\<close>, \<^verbatim>\<open>code\<close> and \<^verbatim>\<open>change_percent\<close>.
\<close>

record stock_item =
  it_name :: "string option"
  it_code :: string
  it_change_percent :: jsval

datatype top_resp = TopThrow | TopNotArray | TopArray "stock_item option list"

text \<open>
  The Twelve Data quote: \<open>FxData d\<close> gives, for each pair, the value of
  \<^verbatim>\<open>r.data[pair]?.percent_change\<close> (\<open>JUndef\<close> when the pair or the property is absent).
\<close>

datatype fx_resp = FxThrow | FxData "string \<Rightarrow> jsval"

text \<open>\<^verbatim>\<open>closes.filter(n => typeof n === "number")\<close>, read as numbers.\<close>

fun numOf :: "jsval \<Rightarrow> jsnum" where
  "numOf (JNum n) = n"
| "numOf _ = NaN"

definition closesOf :: "jsval list \<Rightarrow> jsnum list" where
  "closesOf cs = map numOf (filter typeof_number cs)"

text \<open>
  \<^verbatim>\<open>xs.at(i)\<close>: a negative index counts from the end; out of range the result is
  \<^verbatim>\<open>undefined\<close>, which arithmetic reads as \<open>NaN\<close>.
\<close>

definition js_at :: "'a list \<Rightarrow> int \<Rightarrow> 'a option" where
  "js_at xs i =
     (if 0 \<le> i then (if nat i < length xs then Some (xs ! nat i) else None)
      else (if nat (- i) \<le> length xs then Some (xs ! (length xs - nat (- i))) else None))"

definition numAt :: "jsnum list \<Rightarrow> int \<Rightarrow> jsnum" where
  "numAt xs i = (case js_at xs i of Some n \<Rightarrow> n | None \<Rightarrow> NaN)"

section \<open>Symbol tables\<close>

definition FOREX_PAIRS :: "string list" where
  "FOREX_PAIRS =
     [''EUR/USD'', ''GBP/USD'', ''USD/JPY'', ''USD/ZAR'', ''EUR/ZAR'', ''GBP/ZAR'',
      ''AUD/USD'', ''USD/CHF'']"

definition EODHD_COMMODITIES :: "(string \<times> string) list" where
  "EODHD_COMMODITIES =
     [(''Gold'', ''GLD.US''), (''Silver'', ''SLV.US''), (''Platinum'', ''PPLT.US''),
      (''Crude Oil'', ''USO.US'')]"

definition INDEX_SYMBOLS :: "(string \<times> string) list" where
  "INDEX_SYMBOLS =
     [(''S&P 500'', ''^GSPC''), (''NASDAQ 100'', ''^NDX''), (''Dow Jones'', ''^DJI''),
      (''JSE Top 40'', ''^J200.JO'')]"

definition YAHOO_HEATMAP_SYMBOLS :: "(string \<times> string) list" where
  "YAHOO_HEATMAP_SYMBOLS =
     [(''EUR/USD'', ''EURUSD=X''), (''GBP/USD'', ''GBPUSD=X''), (''USD/JPY'', ''USDJPY=X''),
      (''USD/ZAR'', ''USDZAR=X''), (''EUR/ZAR'', ''EURZAR=X''), (''GBP/ZAR'', ''GBPZAR=X''),
      (''AUD/USD'', ''AUDUSD=X''), (''USD/CHF'', ''USDCHF=X''), (''Gold'', ''GC=F''),
      (''Silver'', ''SI=F''), (''Crude Oil'', ''CL=F'')]"

text \<open>The \<^verbatim>\<open>cryptoSymbols\<close> of \<^verbatim>\<open>fetchEodCryptoMovers\<close> and of the crypto heatmap.\<close>

definition cryptoMoverSymbols :: "(string \<times> string) list" where
  "cryptoMoverSymbols =
     [(''BTC'', ''BTC-USD''), (''ETH'', ''ETH-USD''), (''XRP'', ''XRP-USD''),
      (''SOL'', ''SOL-USD''), (''ADA'', ''ADA-USD'')]"

definition cryptoHeatmapSymbols :: "(string \<times> string) list" where
  "cryptoHeatmapSymbols =
     [(''BTC'', ''BTC-USD''), (''ETH'', ''ETH-USD''), (''XRP'', ''XRP-USD''),
      (''SOL'', ''SOL-USD''), (''ADA'', ''ADA-USD''), (''DOGE'', ''DOGE-USD''),
      (''AVAX'', ''AVAX-USD''), (''BNB'', ''BNB-USD''), (''LTC'', ''LTC-USD'')]"

section \<open>The asset-class mover fetchers\<close>

text \<open>
  The body shared by the daily Yahoo loops (\<^verbatim>\<open>fetchEodCryptoMovers\<close> and the index
  loop of \<^verbatim>\<open>/api/all-movers\<close>): \<open>None\<close> when the symbol is skipped, by \<^verbatim>\<open>continue\<close> or
  by the \<^verbatim>\<open>catch\<close>; there is no check of the previous close.
\<close>

definition dailyChange :: "chart \<Rightarrow> jsnum option" where
  "dailyChange resp =
     (case resp of
        ChartThrow \<Rightarrow> None
      | ChartNoData \<Rightarrow> None
      | ChartCloses cs \<Rightarrow>
          (let closes = closesOf cs
           in if length closes < 2 then None
              else Some (pctChange (numAt closes (- 1)) (numAt closes (- 2)))))"

definition fetchEodCryptoMovers :: "(string \<Rightarrow> chart) \<Rightarrow> mover list" where
  "fetchEodCryptoMovers yahoo =
     List.map_filter
       (\<lambda>(nm, smb). map_option (\<lambda>pct. formatMover nm smb pct ''Crypto'') (dailyChange (yahoo smb)))
       cryptoMoverSymbols"

text \<open>
  The guarded percent change of \<^verbatim>\<open>fetchCommodityMovers\<close> and of \<^verbatim>\<open>/api/commodities\<close>:
  the symbol is skipped when \<^verbatim>\<open>r.data\<close> is falsy, when \<^verbatim>\<open>isNaN(close)\<close>,
  \<^verbatim>\<open>isNaN(previousClose)\<close> or \<^verbatim>\<open>previousClose === 0\<close>, and when \<^verbatim>\<open>isNaN(pct)\<close>.
\<close>

definition commodityChange :: "eod \<Rightarrow> (jsnum \<times> jsnum) option" where
  "commodityChange resp =
     (case resp of
        EodThrow \<Rightarrow> None
      | EodNoData \<Rightarrow> None
      | EodQuote c p \<Rightarrow>
          (let close = parseFloatV c; previousClose = parseFloatV p
           in if isNaN close \<or> isNaN previousClose \<or> js_eq previousClose (Fin 0) then None
              else (let pct = pctChange close previousClose
                    in if isNaN pct then None else Some (close, pct))))"

definition fetchCommodityMovers :: "(string \<Rightarrow> eod) \<Rightarrow> mover list" where
  "fetchCommodityMovers eodhd =
     List.map_filter
       (\<lambda>(nm, smb). map_option (\<lambda>(close, pct). formatMover nm nm pct ''Commodity'')
                      (commodityChange (eodhd smb)))
       EODHD_COMMODITIES"

record stocks =
  items :: "mover list"

text \<open>\<^verbatim>\<open>it.change_percent ?? 0\<close>.\<close>

definition nullish0 :: "jsval \<Rightarrow> jsval" where
  "nullish0 v = (if v = JUndef \<or> v = JNull then JNum (Fin 0) else v)"

definition stockMover :: "stock_item \<Rightarrow> mover" where
  "stockMover it =
     formatMover
       (case it_name it of Some n \<Rightarrow> if n \<noteq> [] then n else it_code it | None \<Rightarrow> it_code it)
       (it_code it)
       (parseFloatV (nullish0 (it_change_percent it)))
       ''Stock''"

definition fetchSide :: "top_resp \<Rightarrow> stocks" where
  "fetchSide resp =
     (case resp of
        TopThrow \<Rightarrow> \<lparr>items = []\<rparr>
      | TopNotArray \<Rightarrow> \<lparr>items = []\<rparr>
      | TopArray its \<Rightarrow>
          if None \<in> set its then \<lparr>items = []\<rparr>
          else \<lparr>items = map (\<lambda>it. stockMover (the it)) its\<rparr>)"

text \<open>\<open>haveKey\<close> is the truthiness of \<^verbatim>\<open>EODHD_KEY\<close>.\<close>

definition fetchEodTopStocks :: "bool \<Rightarrow> (string \<Rightarrow> top_resp) \<Rightarrow> stocks" where
  "fetchEodTopStocks haveKey eodhdTop =
     (if \<not> haveKey then \<lparr>items = []\<rparr>
      else (let g = fetchSide (eodhdTop ''most_gainer_stocks'');
                l = fetchSide (eodhdTop ''most_loser_stocks'')
            in \<lparr>items = items g @ items l\<rparr>))"

definition fetchForexMovers :: "fx_resp \<Rightarrow> mover list" where
  "fetchForexMovers resp =
     (case resp of
        FxThrow \<Rightarrow> []
      | FxData d \<Rightarrow>
          List.map_filter
            (\<lambda>pair. if \<not> truthy (d pair) then None
                    else Some (formatMover pair pair (parseFloatV (d pair)) ''Forex''))
            FOREX_PAIRS)"

text \<open>The index loop of \<^verbatim>\<open>/api/all-movers\<close>.\<close>

definition indexMovers :: "(string \<Rightarrow> chart) \<Rightarrow> mover list" where
  "indexMovers yahoo =
     List.map_filter
       (\<lambda>(nm, smb). map_option (\<lambda>pct. formatMover nm smb pct ''Index'') (dailyChange (yahoo smb)))
       INDEX_SYMBOLS"

section \<open>The fail-tolerant join\<close>

text \<open>
  An element of the array \<^verbatim>\<open>Promise.allSettled\<close> resolves to: a fulfilled entry carries
  the fetcher's value, a rejected one has no \<^verbatim>\<open>value\<close> property.
\<close>

datatype 'a settled = Fulfilled 'a | Rejected

text \<open>
  \<^verbatim>\<open>if (stocksRes.value?.items) combined.push(...)\<close> and the three
  \<^verbatim>\<open>if (xRes.value) combined.push(...xRes.value)\<close>; arrays are truthy, also when empty.
\<close>

definition combine ::
  "stocks settled \<Rightarrow> mover list settled \<Rightarrow> mover list settled \<Rightarrow> mover list settled \<Rightarrow> mover list"
where
  "combine stocksRes cryptoRes fxRes comRes =
     (case stocksRes of Fulfilled v \<Rightarrow> items v | Rejected \<Rightarrow> []) @
     (case cryptoRes of Fulfilled v \<Rightarrow> v | Rejected \<Rightarrow> []) @
     (case fxRes of Fulfilled v \<Rightarrow> v | Rejected \<Rightarrow> []) @
     (case comRes of Fulfilled v \<Rightarrow> v | Rejected \<Rightarrow> [])"

text \<open>The computation of \<^verbatim>\<open>/api/all-movers\<close> on a cache miss, from the settled results.\<close>

definition allMovers ::
  "stocks settled \<Rightarrow> mover list settled \<Rightarrow> mover list settled \<Rightarrow> mover list settled \<Rightarrow>
   (string \<Rightarrow> chart) \<Rightarrow> mover list"
where
  "allMovers stocksRes cryptoRes fxRes comRes yahoo =
     rankMovers (dedupMovers (combine stocksRes cryptoRes fxRes comRes @ indexMovers yahoo))"

section \<open>The commodities endpoint\<close>

record commodity =
  c_name :: string
  c_symbol :: string
  c_change :: string
  c_trend :: string
  c_price :: string
  c_rawChange :: jsnum



section \<open>The heatmaps\<close>

text \<open>
  The keys of the \<^verbatim>\<open>timeframes\<close> object, in the order \<^verbatim>\<open>Object.entries\<close> walks them.
  The query parameters of a timeframe only choose the series that the provider returns.
\<close>

definition timeframes :: "string list" where
  "timeframes = [''1h'', ''4h'', ''1d'', ''1w'']"

text \<open>\<^verbatim>\<open>let compareIndex = -2\<close> and the three conditional assignments that follow it.\<close>

definition compareIndex :: "string \<Rightarrow> nat \<Rightarrow> int" where
  "compareIndex tf len =
     (let c0 = - 2;
          c1 = (if tf = ''1h'' \<and> 13 \<le> len then - 13 else c0);
          c2 = (if tf = ''4h'' \<and> 17 \<le> len then - 17 else c1);
          c3 = (if tf = ''1w'' \<and> 8 \<le> len then - 8 else c2)
      in c3)"

text \<open>
  The value of \<^verbatim>\<open>pct\<close> when \<^verbatim>\<open>tfResults[tf] = pct\<close> runs: \<open>None\<close> is the initial
  \<^verbatim>\<open>null\<close>, left in place when the request throws, when there is no data and when
  fewer than two closes are numbers. The division is not guarded.
\<close>

definition heatmapCell :: "string \<Rightarrow> chart \<Rightarrow> jsnum option" where
  "heatmapCell tf resp =
     (case resp of
        ChartThrow \<Rightarrow> None
      | ChartNoData \<Rightarrow> None
      | ChartCloses cs \<Rightarrow>
          (let closes = closesOf cs
           in if 2 \<le> length closes then
                (let ci = compareIndex tf (length closes)
                 in if \<bar>ci\<bar> \<le> int (length closes)
                    then Some (pctChange (numAt closes (- 1)) (numAt closes ci))
                    else None)
              else None))"

text \<open>One symbol's \<^verbatim>\<open>tfResults\<close>; \<open>yahoo tf\<close> is the response to the request of \<open>tf\<close>.\<close>

definition heatmapRow :: "(string \<Rightarrow> chart) \<Rightarrow> (string \<times> jsnum option) list" where
  "heatmapRow yahoo = map (\<lambda>tf. (tf, heatmapCell tf (yahoo tf))) timeframes"

text \<open>\<^verbatim>\<open>results\<close> of the two heatmap handlers; \<open>yahoo smb tf\<close> answers for a symbol and a timeframe.\<close>

definition heatmap ::
  "(string \<times> string) list \<Rightarrow> (string \<Rightarrow> string \<Rightarrow> chart) \<Rightarrow>
   (string \<times> (string \<times> jsnum option) list) list"
where
  "heatmap symbols yahoo = map (\<lambda>(label, smb). (label, heatmapRow (yahoo smb))) symbols"

definition forexHeatmap ::
  "(string \<Rightarrow> string \<Rightarrow> chart) \<Rightarrow> (string \<times> (string \<times> jsnum option) list) list" where
  "forexHeatmap yahoo = heatmap YAHOO_HEATMAP_SYMBOLS yahoo"

definition cryptoHeatmap ::
  "(string \<Rightarrow> string \<Rightarrow> chart) \<Rightarrow> (string \<times> (string \<times> jsnum option) list) list" where
  "cryptoHeatmap yahoo = heatmap cryptoHeatmapSymbols yahoo"

text \<open>
  What \<^verbatim>\<open>res.json\<close> sends for a cell: \<^verbatim>\<open>JSON.stringify\<close> writes \<^verbatim>\<open>null\<close> for
  \<^verbatim>\<open>null\<close> and for every number that is not finite.
\<close>

definition jsonNumber :: "jsnum option \<Rightarrow> jsval" where
  "jsonNumber v = (case v of Some (Fin r) \<Rightarrow> JNum (Fin r) | _ \<Rightarrow> JNull)"

definition heatmapJson ::
  "(string \<times> (string \<times> jsnum option) list) list \<Rightarrow> (string \<times> (string \<times> jsval) list) list" where
  "heatmapJson results = map (\<lambda>(label, row). (label, map (\<lambda>(tf, v). (tf, jsonNumber v)) row)) results"

section \<open>The caches\<close>

text \<open>
  Every cached endpoint has a pair of module variables, the payload (initially
  \<^verbatim>\<open>null\<close>) and the time it was written (initially 0), and a time-to-live constant in
  milliseconds.
\<close>

datatype endpoint =
  Indices | Forex | Commodities | Crypto | AllMovers | ForexHeatmap | CryptoHeatmap
  | EconomicCalendar

definition MOVERS_CACHE_TTL :: int where
  "MOVERS_CACHE_TTL = 2 * 60 * 1000"

definition GENERIC_TTL :: int where
  "GENERIC_TTL = 60 * 1000"

definition HEATMAP_TTL :: int where
  "HEATMAP_TTL = 5 * 60 * 1000"

definition CALENDAR_TTL :: int where
  "CALENDAR_TTL = 6 * 60 * 60 * 1000"

text \<open>The constant each handler compares against.\<close>

fun ttl :: "endpoint \<Rightarrow> int" where
  "ttl Indices = GENERIC_TTL"
| "ttl Forex = GENERIC_TTL"
| "ttl Commodities = GENERIC_TTL"
| "ttl Crypto = GENERIC_TTL"
| "ttl AllMovers = MOVERS_CACHE_TTL"
| "ttl ForexHeatmap = HEATMAP_TTL"
| "ttl CryptoHeatmap = HEATMAP_TTL"
| "ttl EconomicCalendar = CALENDAR_TTL"

record 'p slot =
  payload :: "'p option"
  writtenAt :: int

type_synonym 'p caches = "endpoint \<Rightarrow> 'p slot"

definition initialCaches :: "'p caches" where
  "initialCaches = (\<lambda>_. \<lparr>payload = None, writtenAt = 0\<rparr>)"

text \<open>
  What the rest of a handler does once the cache test has failed: \<open>Stored p t\<close> when it
  computes \<open>p\<close>, assigns it to the cache with \<^verbatim>\<open>Date.now() = t\<close> and sends it;
  \<open>Unstored p\<close> when it sends \<open>p\<close> without caching it (the calendar's early
  \<^verbatim>\<open>return res.json([])\<close>); \<open>Failed\<close> when the outer \<^verbatim>\<open>catch\<close> answers with status 500.
\<close>

datatype 'p fetched = Stored 'p int | Unstored 'p | Failed

datatype 'p response = Json 'p | Error500

text \<open>
  A request to a cached endpoint at time \<open>now\<close>, which is \<^verbatim>\<open>Date.now()\<close> in the test
  \<^verbatim>\<open>cache && Date.now() - cacheTime < TTL\<close>; a payload, once stored, is an array or an
  object and so truthy. The result says what was sent, what the caches hold afterwards
  and whether the rest of the handler, which calls the providers, was run.
\<close>

definition handleRequest ::
  "endpoint \<Rightarrow> int \<Rightarrow> 'p fetched \<Rightarrow> 'p caches \<Rightarrow> 'p response \<times> 'p caches \<times> bool" where
  "handleRequest ep now fetch st =
     (case payload (st ep) of
        Some p \<Rightarrow>
          if now - writtenAt (st ep) < ttl ep then (Json p, st, False)
          else (case fetch of
                  Stored q t \<Rightarrow> (Json q, st(ep := \<lparr>payload = Some q, writtenAt = t\<rparr>), True)
                | Unstored q \<Rightarrow> (Json q, st, True)
                | Failed \<Rightarrow> (Error500, st, True))
      | None \<Rightarrow>
          (case fetch of
             Stored q t \<Rightarrow> (Json q, st(ep := \<lparr>payload = Some q, writtenAt = t\<rparr>), True)
           | Unstored q \<Rightarrow> (Json q, st, True)
           | Failed \<Rightarrow> (Error500, st, True)))"

section \<open>Currency strength\<close>

text \<open>
  An entry of the array \<^verbatim>\<open>/api/forex\<close> answers with, as \<^verbatim>\<open>/api/forex-strength\<close> and
  \<^verbatim>\<open>/api/sa-markets\<close> read it: the pair, the change string (\<^verbatim>\<open>"+1.00%"\<close>) and the
  price as JSON carries it, a number or \<^verbatim>\<open>null\<close> (\<open>None\<close>).
\<close>

record forex_quote =
  pair :: string
  change :: string
  price :: "jsnum option"



















section \<open>The economic calendar\<close>

text \<open>
  An event of the provider's array. The textual fields are strings when present
  (\<open>None\<close> is an absent or \<^verbatim>\<open>null\<close> field); \<^verbatim>\<open>actual\<close>, \<^verbatim>\<open>estimate\<close> and
  \<^verbatim>\<open>previous\<close> are passed on as they are.
\<close>

record fmp_event =
  event :: "string option"
  country :: "string option"
  date :: "string option"
  impact :: "string option"
  actual :: jsval
  estimate :: jsval
  previous :: jsval
  currency :: "string option"

text \<open>
  The \<^verbatim>\<open>Date\<close> operations the handler uses, as parameters: \<^verbatim>\<open>new Date(s)\<close> (the time
  value, or \<open>None\<close> for an invalid date), \<^verbatim>\<open>toISOString().split('T')[0]\<close>,
  \<^verbatim>\<open>getHours()\<close>, \<^verbatim>\<open>getMinutes()\<close>, and the time value of \<^verbatim>\<open>todayMidnight\<close>.
\<close>

record clock =
  parseDate :: "string \<Rightarrow> int option"
  isoDate :: "int \<Rightarrow> string"
  getHours :: "int \<Rightarrow> nat"
  getMinutes :: "int \<Rightarrow> nat"
  todayMidnight :: int

type_synonym jsobj = "(string \<times> jsval) list"

definition getProp :: "jsobj \<Rightarrow> string \<Rightarrow> jsval" where
  "getProp obj k = (case map_of obj k of Some v \<Rightarrow> v | None \<Rightarrow> JUndef)"

text \<open>\<^verbatim>\<open>s || ""\<close> for an optional string, and the truthiness of an optional string.\<close>

definition orEmpty :: "string option \<Rightarrow> string" where
  "orEmpty s = (case s of Some t \<Rightarrow> t | None \<Rightarrow> [])"

definition present :: "string option \<Rightarrow> bool" where
  "present s = (orEmpty s \<noteq> [])"

definition toLowerCase :: "string \<Rightarrow> string" where
  "toLowerCase s =
     map (\<lambda>c. if 65 \<le> (of_char c :: nat) \<and> (of_char c :: nat) \<le> 90
               then char_of ((of_char c :: nat) + 32) else c) s"

definition toUpperCase :: "string \<Rightarrow> string" where
  "toUpperCase s =
     map (\<lambda>c. if 97 \<le> (of_char c :: nat) \<and> (of_char c :: nat) \<le> 122
               then char_of ((of_char c :: nat) - 32) else c) s"

text \<open>\<^verbatim>\<open>s.includes(k)\<close>: \<open>k\<close> occurs in \<open>s\<close> as a contiguous run.\<close>

fun js_includes :: "string \<Rightarrow> string \<Rightarrow> bool" where
  "js_includes [] k = (k = [])"
| "js_includes (c # s) k = (take (length k) (c # s) = k \<or> js_includes s k)"

text \<open>\<^verbatim>\<open>String(n).padStart(2, '0')\<close>.\<close>

definition pad2 :: "nat \<Rightarrow> string" where
  "pad2 n = replicate (2 - length (digits n)) (CHR ''0'') @ digits n"

definition highKeywords :: "string list" where
  "highKeywords =
     [''gdp'', ''interest rate'', ''nfp'', ''non-farm'', ''payroll'', ''cpi'', ''unemployment'',
      ''inflation'', ''fed'', ''fomc'', ''central bank'', ''rate decision'', ''ppi'',
      ''retail sales'']"

definition mediumKeywords :: "string list" where
  "mediumKeywords =
     [''pmi'', ''trade balance'', ''consumer confidence'', ''manufacturing'',
      ''industrial production'', ''sentiment'']"

definition importanceOf :: "fmp_event \<Rightarrow> string" where
  "importanceOf e =
     (let imp = toLowerCase (orEmpty (impact e))
      in if imp = ''high'' then ''High''
         else if imp = ''medium'' then ''Medium''
         else if imp = ''low'' then ''Low''
         else (let eventName = toLowerCase (orEmpty (event e))
               in if list_ex (\<lambda>k. js_includes eventName k) highKeywords then ''High''
                  else if list_ex (\<lambda>k. js_includes eventName k) mediumKeywords then ''Medium''
                  else ''Low''))"

text \<open>
  The first \<^verbatim>\<open>filter\<close>: the event has an \<^verbatim>\<open>event\<close>, a \<^verbatim>\<open>country\<close> and a
  \<^verbatim>\<open>date\<close>, and its date is not before \<^verbatim>\<open>todayMidnight\<close> (a comparison that an
  invalid date fails). The result is the time value that \<^verbatim>\<open>map\<close> computes again.
\<close>

definition upcomingTime :: "clock \<Rightarrow> fmp_event \<Rightarrow> int option" where
  "upcomingTime clk e =
     (if \<not> present (event e) \<or> \<not> present (country e) \<or> \<not> present (date e) then None
      else (case parseDate clk (orEmpty (date e)) of
              Some t \<Rightarrow> if todayMidnight clk \<le> t then Some t else None
            | None \<Rightarrow> None))"

text \<open>\<^verbatim>\<open>v !== null && v !== undefined ? v : null\<close>.\<close>

definition orNull :: "jsval \<Rightarrow> jsval" where
  "orNull v = (if v \<noteq> JNull \<and> v \<noteq> JUndef then v else JNull)"

text \<open>The object literal that \<^verbatim>\<open>map\<close> returns, property by property.\<close>

definition calendarEntry :: "clock \<Rightarrow> fmp_event \<Rightarrow> int \<Rightarrow> jsobj" where
  "calendarEntry clk e dateTime =
     [(''date'', JStr (isoDate clk dateTime)),
      (''time'', JStr (pad2 (getHours clk dateTime) @ '':'' @ pad2 (getMinutes clk dateTime))),
      (''country'', JStr (orEmpty (country e))),
      (''event'', JStr (orEmpty (event e))),
      (''actual'', orNull (actual e)),
      (''forecast'', orNull (estimate e)),
      (''previous'', orNull (previous e)),
      (''importance'', JStr (importanceOf e)),
      (''currency'', JStr (if present (currency e) then orEmpty (currency e) else orEmpty (country e))),
      (''rawDateTime'', JDate dateTime)]"

definition majorCountries :: "string list" where
  "majorCountries =
     [''US'', ''GB'', ''UK'', ''EU'', ''JP'', ''CN'', ''CA'', ''AU'', ''NZ'', ''CH'', ''ZA'',
      ''DE'', ''FR'', ''IT'', ''ES'', ''BR'', ''MX'', ''IN'',
      ''United States'', ''United Kingdom'', ''Euro Area'', ''Germany'',
      ''France'', ''Japan'', ''China'', ''Canada'', ''Australia'', ''South Africa'']"

text \<open>The second \<^verbatim>\<open>filter\<close>, on the \<^verbatim>\<open>country\<close> of the mapped object.\<close>

definition countryOf :: "jsobj \<Rightarrow> string" where
  "countryOf obj = (case getProp obj ''country'' of JStr s \<Rightarrow> s | _ \<Rightarrow> [])"

definition isMajor :: "string \<Rightarrow> bool" where
  "isMajor co =
     (let countryUpper = toUpperCase co
      in list_ex (\<lambda>c. js_includes countryUpper (toUpperCase c) \<or> js_includes (toUpperCase c) countryUpper)
           majorCountries)"

text \<open>\<^verbatim>\<open>(a, b) => a.rawDateTime - b.rawDateTime\<close>: dates subtract as their time values.\<close>

definition rawTime :: "jsobj \<Rightarrow> jsnum" where
  "rawTime obj = (case getProp obj ''rawDateTime'' of JDate t \<Rightarrow> Fin (real_of_int t) | _ \<Rightarrow> NaN)"

definition byDateTime :: "jsobj \<Rightarrow> jsobj \<Rightarrow> jsnum" where
  "byDateTime a b = js_sub (rawTime a) (rawTime b)"

definition calendarEvents :: "clock \<Rightarrow> fmp_event list \<Rightarrow> jsobj list" where
  "calendarEvents clk data =
     take 100
       (sortBy byDateTime
          (filter (\<lambda>obj. isMajor (countryOf obj))
             (List.map_filter (\<lambda>e. map_option (calendarEntry clk e) (upcomingTime clk e)) data)))"

text \<open>
  The handler after the cache test: a request that throws is answered with status 500,
  a response that is no array or an empty one with \<^verbatim>\<open>[]\<close> that is not cached, and an
  array of events with the list above, cached at the time \<open>t\<close> of the store.
\<close>

datatype cal_resp = CalThrow | CalNotArray | CalArray "fmp_event list"

definition economicCalendar :: "clock \<Rightarrow> int \<Rightarrow> cal_resp \<Rightarrow> jsobj list fetched" where
  "economicCalendar clk t resp =
     (case resp of
        CalThrow \<Rightarrow> Failed
      | CalNotArray \<Rightarrow> Unstored []
      | CalArray data \<Rightarrow> if data = [] then Unstored [] else Stored (calendarEvents clk data) t)"

section \<open>The South African markets endpoint\<close>

text \<open>
  The entries of \<^verbatim>\<open>/api/indices\<close> as \<^verbatim>\<open>/api/sa-markets\<close> receives them; the entries of
  \<^verbatim>\<open>/api/forex\<close> and \<^verbatim>\<open>/api/commodities\<close> are the records above. A request to one of
  the three endpoints that fails is replaced by \<^verbatim>\<open>{ data: [] }\<close>: \<open>None\<close> below.
\<close>

record index_quote =
  i_name :: string
  i_symbol :: string
  i_change :: string
  i_latest :: string
  i_rawChange :: jsnum

definition upstream :: "'a list option \<Rightarrow> 'a list" where
  "upstream r = (case r of Some d \<Rightarrow> d | None \<Rightarrow> [])"

definition jseIndices :: "index_quote list \<Rightarrow> index_quote list" where
  "jseIndices allIndices =
     filter (\<lambda>idx. js_includes (i_name idx) ''JSE'' \<or> js_includes (i_symbol idx) ''.JO'') allIndices"

definition zarForex :: "forex_quote list \<Rightarrow> forex_quote list" where
  "zarForex allForex = filter (\<lambda>fx. js_includes (pair fx) ''ZAR'') allForex"

text \<open>
  \<^verbatim>\<open>usdZarPair ? usdZarPair.price : 18.75\<close>, where \<^verbatim>\<open>usdZarPair\<close> is what
  \<^verbatim>\<open>zarForex.find(fx => fx.pair === "USD/ZAR")\<close> returns.
\<close>

definition usdZarRate :: "forex_quote list \<Rightarrow> jsnum option" where
  "usdZarRate zf =
     (case find (\<lambda>fx. pair fx = ''USD/ZAR'') zf of
        Some usdZarPair \<Rightarrow> price usdZarPair
      | None \<Rightarrow> Some (Fin (1875 / 100)))"

text \<open>The rate as the multiplication reads it: \<^verbatim>\<open>null\<close> converts to 0.\<close>

definition rateNumber :: "jsnum option \<Rightarrow> jsnum" where
  "rateNumber r = (case r of Some n \<Rightarrow> n | None \<Rightarrow> Fin 0)"

text \<open>
  \<^verbatim>\<open>priceZAR.toFixed(0).replace(/\B(?=(\d{3})+(?!\d))/g, ",")\<close> behind \<^verbatim>\<open>"R "\<close>: on
  the strings \<^verbatim>\<open>toFixed(0)\<close> gives, a comma before every group of three digits counted
  from the right; \<^verbatim>\<open>NaN\<close> and \<^verbatim>\<open>Infinity\<close> have no digit and stay as they are.
\<close>

fun group3 :: "string \<Rightarrow> string" where
  "group3 (a # b # c # d # rest) = a # b # c # CHR '','' # group3 (d # rest)"
| "group3 ds = ds"

definition commas :: "string \<Rightarrow> string" where
  "commas s =
     (if s \<noteq> [] \<and> list_all isDigit s then rev (group3 (rev s))
      else (case s of
              c # ds \<Rightarrow> if c = CHR ''-'' \<and> ds \<noteq> [] \<and> list_all isDigit ds
                        then c # rev (group3 (rev ds)) else s
            | [] \<Rightarrow> s))"

record zar_commodity =
  z_name :: string
  z_priceZAR :: string
  z_change :: string
  z_rawChange :: jsval

definition commoditiesInZAR :: "jsnum option \<Rightarrow> commodity list \<Rightarrow> zar_commodity list" where
  "commoditiesInZAR rate allCommodities =
     map (\<lambda>comm.
            (let priceUSD = parseFloat (c_price comm);
                 priceZAR = js_mul priceUSD (rateNumber rate)
             in \<lparr> z_name = c_name comm,
                  z_priceZAR = ''R '' @ commas (toFixed 0 priceZAR),
                  z_change = c_change comm,
                  z_rawChange = jsonNumber (Some (c_rawChange comm)) \<rparr>))
       allCommodities"

text \<open>The response object: the keys \<^verbatim>\<open>indices\<close>, \<^verbatim>\<open>forex\<close>, \<^verbatim>\<open>commodities\<close> and \<^verbatim>\<open>nextEvent\<close>.\<close>

record sa_markets =
  sa_indices :: "index_quote list"
  sa_forex :: "forex_quote list"
  sa_commodities :: "zar_commodity list"
  sa_nextEvent :: "string \<times> string"

definition saMarkets ::
  "index_quote list option \<Rightarrow> forex_quote list option \<Rightarrow> commodity list option \<Rightarrow> sa_markets" where
  "saMarkets indicesResp forexResp commoditiesResp =
     (let allIndices = upstream indicesResp;
          allForex = upstream forexResp;
          allCommodities = upstream commoditiesResp
      in \<lparr> sa_indices = jseIndices allIndices,
           sa_forex = zarForex allForex,
           sa_commodities = commoditiesInZAR (usdZarRate (zarForex allForex)) allCommodities,
           sa_nextEvent = (''SARB Interest Rate Decision'', ''March 27, 2026'') \<rparr>)"


section \<open>Verification: deduplication\<close>



lemma js_not_gt_ge: "\<not> isNaN a \<Longrightarrow> \<not> isNaN b \<Longrightarrow> \<not> js_gt a b \<Longrightarrow> js_ge b a"
  by (cases a; cases b) (auto simp: js_gt_def js_ge_def js_le_def js_eq_def)



lemma map_get_in_set: "map_get m k = Some v \<Longrightarrow> (k, v) \<in> set m"
  by (induction m) (auto split: if_splits)














section \<open>Verification: ranking\<close>

lemma js_gt_sub_zero: "js_gt (js_sub b a) (Fin 0) = js_gt b a"
  by (cases a; cases b) (auto simp: js_gt_def js_sub_def)

lemma js_ge_trans: "js_ge a b \<Longrightarrow> js_ge b c \<Longrightarrow> js_ge a c"
  by (cases a; cases b; cases c) (auto simp: js_ge_def js_le_def js_eq_def)

lemma set_insertBy: "set (insertBy cmp x ys) = insert x (set ys)"
  by (induction ys) auto

lemma mset_insertBy: "mset (insertBy cmp x ys) = add_mset x (mset ys)"
  by (induction ys) auto

lemma mset_sortBy: "mset (sortBy cmp xs) = mset xs"
  by (induction xs) (auto simp: mset_insertBy)


lemma set_sortBy: "set (sortBy cmp xs) = set xs"
  using mset_sortBy [of cmp xs] by (metis set_mset_mset)






section \<open>Verification: the fail-tolerant join\<close>

lemma crypto_all_failed:
  assumes "\<forall>smb \<in> snd ` set cryptoMoverSymbols. yahoo smb = ChartThrow \<or> yahoo smb = ChartNoData"
  shows "fetchEodCryptoMovers yahoo = []"
  using assms
  by (auto simp: fetchEodCryptoMovers_def cryptoMoverSymbols_def dailyChange_def List.map_filter_simps)

lemma commodity_all_failed:
  assumes "\<forall>smb \<in> snd ` set EODHD_COMMODITIES. eodhd smb = EodThrow \<or> eodhd smb = EodNoData"
  shows "fetchCommodityMovers eodhd = []"
  using assms
  by (auto simp: fetchCommodityMovers_def EODHD_COMMODITIES_def commodityChange_def List.map_filter_simps)

lemma stocks_all_failed:
  assumes "\<not> haveKey \<or> (\<forall>side. eodhdTop side = TopThrow \<or> eodhdTop side = TopNotArray)"
  shows "fetchEodTopStocks haveKey eodhdTop = \<lparr>items = []\<rparr>"
proof (cases haveKey)
  case False
  then show ?thesis by (simp add: fetchEodTopStocks_def)
next
  case True
  have "fetchSide (eodhdTop side) = \<lparr>items = []\<rparr>" for side
  proof -
    from assms True have "eodhdTop side = TopThrow \<or> eodhdTop side = TopNotArray" by blast
    then show ?thesis by (auto simp: fetchSide_def)
  qed
  then show ?thesis by (simp add: fetchEodTopStocks_def)
qed

text \<open>
  Claim C7. Whatever the outcomes of the four fetchers, the combined list is the
  fulfilled fetchers' records one after the other: a rejected fetcher adds nothing (it
  could as well have returned no record) and the records of every fulfilled fetcher are
  all there. A fetcher whose every provider call fails returns the empty list, or the
  empty \<open>items\<close>; a fetcher is a total function to its list: a request that throws is a
  skipped symbol, not an error result.
\<close>

theorem join_fail_tolerant:
  "combine Rejected c f m = combine (Fulfilled \<lparr>items = []\<rparr>) c f m \<and>
   combine s Rejected f m = combine s (Fulfilled []) f m \<and>
   combine s c Rejected m = combine s c (Fulfilled []) m \<and>
   combine s c f Rejected = combine s c f (Fulfilled []) \<and>
   combine Rejected Rejected Rejected Rejected = [] \<and>
   combine (Fulfilled sv) (Fulfilled cv) (Fulfilled fv) (Fulfilled mv) = items sv @ cv @ fv @ mv \<and>
   (s = Fulfilled sv \<longrightarrow> set (items sv) \<subseteq> set (combine s c f m)) \<and>
   (c = Fulfilled cv \<longrightarrow> set cv \<subseteq> set (combine s c f m)) \<and>
   (f = Fulfilled fv \<longrightarrow> set fv \<subseteq> set (combine s c f m)) \<and>
   (m = Fulfilled mv \<longrightarrow> set mv \<subseteq> set (combine s c f m)) \<and>
   (\<not> haveKey \<or> (\<forall>side. eodhdTop side = TopThrow \<or> eodhdTop side = TopNotArray) \<longrightarrow>
      fetchEodTopStocks haveKey eodhdTop = \<lparr>items = []\<rparr>) \<and>
   ((\<forall>smb \<in> snd ` set cryptoMoverSymbols. yahoo smb = ChartThrow \<or> yahoo smb = ChartNoData) \<longrightarrow>
      fetchEodCryptoMovers yahoo = []) \<and>
   fetchForexMovers FxThrow = [] \<and>
   ((\<forall>smb \<in> snd ` set EODHD_COMMODITIES. eodhd smb = EodThrow \<or> eodhd smb = EodNoData) \<longrightarrow>
      fetchCommodityMovers eodhd = [])"
  using stocks_all_failed [of haveKey eodhdTop] crypto_all_failed [of yahoo]
    commodity_all_failed [of eodhd]
  by (auto simp: combine_def fetchForexMovers_def)

theorem join_fail_tolerant_witness:
  "combine (Fulfilled \<lparr>items = [formatMover ''Apple'' ''AAPL.US'' (Fin 3) ''Stock'']\<rparr>)
     Rejected (Fulfilled [formatMover ''EUR/USD'' ''EUR/USD'' (Fin 1) ''Forex'']) Rejected
   = combine (Fulfilled \<lparr>items = [formatMover ''Apple'' ''AAPL.US'' (Fin 3) ''Stock'']\<rparr>)
     (Fulfilled []) (Fulfilled [formatMover ''EUR/USD'' ''EUR/USD'' (Fin 1) ''Forex'']) Rejected \<and>
   set [formatMover ''EUR/USD'' ''EUR/USD'' (Fin 1) ''Forex'']
     \<subseteq> set (combine (Fulfilled \<lparr>items = [formatMover ''Apple'' ''AAPL.US'' (Fin 3) ''Stock'']\<rparr>)
         Rejected (Fulfilled [formatMover ''EUR/USD'' ''EUR/USD'' (Fin 1) ''Forex'']) Rejected) \<and>
   fetchEodTopStocks True (\<lambda>_. TopThrow) = \<lparr>items = []\<rparr> \<and>
   fetchEodCryptoMovers (\<lambda>_. ChartThrow) = [] \<and>
   fetchForexMovers FxThrow = [] \<and>
   fetchCommodityMovers (\<lambda>_. EodThrow) = []"
proof -
  let ?a = "formatMover ''Apple'' ''AAPL.US'' (Fin 3) ''Stock''"
  let ?e = "formatMover ''EUR/USD'' ''EUR/USD'' (Fin 1) ''Forex''"
  note t = join_fail_tolerant [where s = "Fulfilled \<lparr>items = [?a]\<rparr>" and c = Rejected
      and f = "Fulfilled [?e]" and m = Rejected and sv = "\<lparr>items = [?a]\<rparr>" and cv = "[]"
      and fv = "[?e]" and mv = "[]" and haveKey = True and eodhdTop = "\<lambda>_. TopThrow"
      and yahoo = "\<lambda>_. ChartThrow" and eodhd = "\<lambda>_. EodThrow"]
  have "combine (Fulfilled \<lparr>items = [?a]\<rparr>) Rejected (Fulfilled [?e]) Rejected
      = combine (Fulfilled \<lparr>items = [?a]\<rparr>) (Fulfilled []) (Fulfilled [?e]) Rejected"
    using t by blast
  moreover have "set [?e] \<subseteq> set (combine (Fulfilled \<lparr>items = [?a]\<rparr>) Rejected (Fulfilled [?e]) Rejected)"
    using t by blast
  moreover have "fetchEodTopStocks True (\<lambda>_. TopThrow) = \<lparr>items = []\<rparr>"
    using t by blast
  moreover have "fetchEodCryptoMovers (\<lambda>_. ChartThrow) = []"
    using t by blast
  moreover have "fetchForexMovers FxThrow = []"
    using t by blast
  moreover have "fetchCommodityMovers (\<lambda>_. EodThrow) = []"
    using t by blast
  ultimately show ?thesis by blast
qed

section \<open>Verification: the percent change and its callers\<close>






lemma commodityChange_Some:
  "commodityChange resp = Some (close, pct) \<Longrightarrow>
     \<exists>c p. resp = EodQuote c p \<and> close = parseFloatV c \<and> pct = pctChange close (parseFloatV p)"
  by (auto simp: commodityChange_def Let_def split: eod.splits if_splits)




section \<open>Verification: the heatmaps\<close>

lemma numAt_neg:
  "0 < k \<Longrightarrow> k \<le> length xs \<Longrightarrow> numAt xs (- int k) = xs ! (length xs - k)"
  by (simp add: numAt_def js_at_def)

lemma numAt_last: "xs \<noteq> [] \<Longrightarrow> numAt xs (- 1) = last xs"
  using numAt_neg [of 1 xs] by (cases xs) (simp_all add: last_conv_nth)

lemma compareIndex_cases:
  "compareIndex tf n =
     - int (if tf = ''1h'' \<and> 13 \<le> n then 13
            else if tf = ''4h'' \<and> 17 \<le> n then 17
            else if tf = ''1w'' \<and> 8 \<le> n then 8
            else 2)"
  by (simp add: compareIndex_def)

lemma compareIndex_in_range: "2 \<le> n \<Longrightarrow> \<bar>compareIndex tf n\<bar> \<le> int n"
  by (simp add: compareIndex_def)

lemma heatmapCell_closes:
  assumes "2 \<le> length (closesOf cs)"
  shows "heatmapCell tf (ChartCloses cs)
     = Some (pctChange (numAt (closesOf cs) (- 1))
               (numAt (closesOf cs) (compareIndex tf (length (closesOf cs)))))"
  using assms compareIndex_in_range [OF assms, of tf]
  by (simp add: heatmapCell_def Let_def)

lemma heatmapCell_short:
  "length (closesOf cs) < 2 \<Longrightarrow> heatmapCell tf (ChartCloses cs) = None"
  by (simp add: heatmapCell_def Let_def)

lemma pctChange_bad_previous:
  "prev = Fin 0 \<or> \<not> isFinite prev \<Longrightarrow> \<not> isFinite (pctChange cur prev)"
  by (cases cur; cases prev) (auto simp: pctChange_def js_sub_def)

lemma jsonNumber_nonfinite: "\<not> isFinite v \<Longrightarrow> jsonNumber (Some v) = JNull"
  by (cases v) (simp_all add: jsonNumber_def)

text \<open>
  Claim C4. For a cell whose filtered close series has at least two samples the value is
  \<open>(last - baseline) / baseline * 100\<close>, where the baseline is the sample at offset
  \<open>-13\<close> for \<^verbatim>\<open>1h\<close> with at least 13 samples, \<open>-17\<close> for \<^verbatim>\<open>4h\<close> with at least 17,
  \<open>-8\<close> for \<^verbatim>\<open>1w\<close> with at least 8, and the second-to-last sample (offset \<open>-2\<close>)
  in every other case.
\<close>

theorem heatmap_baseline_offset:
  "(2 \<le> length (closesOf cs) \<longrightarrow>
      heatmapCell tf (ChartCloses cs)
        = Some (pctChange (last (closesOf cs))
                  (closesOf cs !
                     (length (closesOf cs) -
                        (if tf = ''1h'' \<and> 13 \<le> length (closesOf cs) then 13
                         else if tf = ''4h'' \<and> 17 \<le> length (closesOf cs) then 17
                         else if tf = ''1w'' \<and> 8 \<le> length (closesOf cs) then 8
                         else 2))))) \<and>
   compareIndex ''1h'' n = (if 13 \<le> n then - 13 else - 2) \<and>
   compareIndex ''4h'' n = (if 17 \<le> n then - 17 else - 2) \<and>
   compareIndex ''1d'' n = - 2 \<and>
   compareIndex ''1w'' n = (if 8 \<le> n then - 8 else - 2) \<and>
   (tf \<notin> {''1h'', ''4h'', ''1w''} \<longrightarrow> compareIndex tf n = - 2) \<and>
   pctChange (Fin x) (Fin y) = js_mul (js_div (js_sub (Fin x) (Fin y)) (Fin y)) (Fin 100) \<and>
   (y \<noteq> 0 \<longrightarrow> pctChange (Fin x) (Fin y) = Fin ((x - y) / y * 100))"
proof (intro conjI impI)
  assume len: "2 \<le> length (closesOf cs)"
  let ?xs = "closesOf cs"
  let ?k = "if tf = ''1h'' \<and> 13 \<le> length ?xs then 13
            else if tf = ''4h'' \<and> 17 \<le> length ?xs then 17
            else if tf = ''1w'' \<and> 8 \<le> length ?xs then 8
            else (2::nat)"
  have k: "0 < ?k" "?k \<le> length ?xs" using len by auto
  have "numAt ?xs (compareIndex tf (length ?xs)) = ?xs ! (length ?xs - ?k)"
    unfolding compareIndex_cases by (rule numAt_neg [OF k])
  moreover have "numAt ?xs (- 1) = last ?xs"
    using len by (intro numAt_last) auto
  ultimately show "heatmapCell tf (ChartCloses cs) = Some (pctChange (last ?xs) (?xs ! (length ?xs - ?k)))"
    using heatmapCell_closes [OF len, of tf] by simp
qed (simp_all add: compareIndex_def pctChange_def js_sub_def)

theorem heatmap_baseline_offset_witness:
  "heatmapCell ''1w'' (ChartCloses (map (\<lambda>r. JNum (Fin r)) [50, 2, 3, 4, 5, 6, 7, 8, 100]))
     = Some (Fin 4900) \<and>
   heatmapCell ''1d'' (ChartCloses (map (\<lambda>r. JNum (Fin r)) [50, 2, 3, 4, 5, 6, 7, 8, 100]))
     = Some (Fin 1150) \<and>
   heatmapCell ''1h'' (ChartCloses [JNum (Fin 4), JNull, JNum (Fin 5)]) = Some (Fin 25)"
proof -
  let ?cs = "map (\<lambda>r. JNum (Fin r)) [50, 2, 3, 4, 5, 6, 7, 8, 100]"
  have c: "closesOf ?cs = map Fin [50, 2, 3, 4, 5, 6, 7, 8, 100]"
    "closesOf [JNum (Fin 4), JNull, JNum (Fin 5)] = [Fin 4, Fin 5]"
    by (simp_all add: closesOf_def)
  have "heatmapCell ''1w'' (ChartCloses ?cs) = Some (Fin 4900)"
    using heatmap_baseline_offset [where cs = ?cs and tf = "''1w''"]
    unfolding c by (simp add: pctChange_def js_sub_def)
  moreover have "heatmapCell ''1d'' (ChartCloses ?cs) = Some (Fin 1150)"
    using heatmap_baseline_offset [where cs = ?cs and tf = "''1d''"]
    unfolding c by (simp add: pctChange_def js_sub_def)
  moreover have "heatmapCell ''1h'' (ChartCloses [JNum (Fin 4), JNull, JNum (Fin 5)]) = Some (Fin 25)"
    using heatmap_baseline_offset [where cs = "[JNum (Fin 4), JNull, JNum (Fin 5)]" and tf = "''1h''"]
    unfolding c by (simp add: pctChange_def js_sub_def)
  ultimately show ?thesis by blast
qed

text \<open>
  Claim C5. Every row of a heatmap has the four timeframe keys, whatever the provider
  answers, and every symbol has its row; the model of a cell is a total function, a
  request that throws leaves the cell \<^verbatim>\<open>null\<close>. A cell whose request fails, has no data
  or has fewer than two numeric closes is \<^verbatim>\<open>null\<close>. A cell whose baseline is zero or
  not finite is computed as a number that is not finite, which the JSON response carries
  as \<^verbatim>\<open>null\<close>. A series of length 1 gives \<^verbatim>\<open>null\<close> for all four timeframes.
\<close>

theorem heatmap_null_policy:
  "map fst (heatmapRow y) = [''1h'', ''4h'', ''1d'', ''1w''] \<and>
   (tf \<in> set timeframes \<longrightarrow> map_of (heatmapRow y) tf = Some (heatmapCell tf (y tf))) \<and>
   map fst (forexHeatmap yahoo) = map fst YAHOO_HEATMAP_SYMBOLS \<and>
   map fst (cryptoHeatmap yahoo) = map fst cryptoHeatmapSymbols \<and>
   map fst (heatmapJson (heatmap syms yahoo)) = map fst syms \<and>
   (\<forall>(label, row) \<in> set (heatmap syms yahoo). map fst row = timeframes) \<and>
   (\<forall>(label, row) \<in> set (heatmapJson (heatmap syms yahoo)). map fst row = timeframes) \<and>
   (resp = ChartThrow \<or> resp = ChartNoData \<or>
      (\<exists>cs. resp = ChartCloses cs \<and> length (closesOf cs) < 2) \<longrightarrow>
      heatmapCell tf resp = None \<and> jsonNumber (heatmapCell tf resp) = JNull) \<and>
   (2 \<le> length (closesOf cs) \<and>
      (numAt (closesOf cs) (compareIndex tf (length (closesOf cs))) = Fin 0 \<or>
       \<not> isFinite (numAt (closesOf cs) (compareIndex tf (length (closesOf cs))))) \<longrightarrow>
      (\<exists>v. heatmapCell tf (ChartCloses cs) = Some v \<and> \<not> isFinite v) \<and>
      jsonNumber (heatmapCell tf (ChartCloses cs)) = JNull) \<and>
   (length (closesOf cs) = 1 \<longrightarrow>
      heatmapRow (\<lambda>_. ChartCloses cs)
        = [(''1h'', None), (''4h'', None), (''1d'', None), (''1w'', None)])"
proof (intro conjI impI)
  show "map fst (heatmapRow y) = [''1h'', ''4h'', ''1d'', ''1w'']"
    by (simp add: heatmapRow_def timeframes_def)
  show "map_of (heatmapRow y) tf = Some (heatmapCell tf (y tf))" if "tf \<in> set timeframes"
    using that by (auto simp: heatmapRow_def timeframes_def)
  show "map fst (forexHeatmap yahoo) = map fst YAHOO_HEATMAP_SYMBOLS"
    by (simp add: forexHeatmap_def heatmap_def case_prod_unfold comp_def)
  show "map fst (cryptoHeatmap yahoo) = map fst cryptoHeatmapSymbols"
    by (simp add: cryptoHeatmap_def heatmap_def case_prod_unfold comp_def)
  show "map fst (heatmapJson (heatmap syms yahoo)) = map fst syms"
    by (simp add: heatmapJson_def heatmap_def case_prod_unfold comp_def)
  show "\<forall>(label, row) \<in> set (heatmap syms yahoo). map fst row = timeframes"
    by (auto simp: heatmap_def heatmapRow_def comp_def)
  show "\<forall>(label, row) \<in> set (heatmapJson (heatmap syms yahoo)). map fst row = timeframes"
    by (auto simp: heatmapJson_def heatmap_def heatmapRow_def comp_def case_prod_unfold)
next
  assume "resp = ChartThrow \<or> resp = ChartNoData \<or>
      (\<exists>cs. resp = ChartCloses cs \<and> length (closesOf cs) < 2)"
  then show "heatmapCell tf resp = None" "jsonNumber (heatmapCell tf resp) = JNull"
    by (auto simp: heatmapCell_def jsonNumber_def Let_def)
next
  assume a: "2 \<le> length (closesOf cs) \<and>
      (numAt (closesOf cs) (compareIndex tf (length (closesOf cs))) = Fin 0 \<or>
       \<not> isFinite (numAt (closesOf cs) (compareIndex tf (length (closesOf cs)))))"
  let ?v = "pctChange (numAt (closesOf cs) (- 1))
      (numAt (closesOf cs) (compareIndex tf (length (closesOf cs))))"
  have cell: "heatmapCell tf (ChartCloses cs) = Some ?v"
    using a heatmapCell_closes by blast
  have nf: "\<not> isFinite ?v"
    using a pctChange_bad_previous by blast
  show "\<exists>v. heatmapCell tf (ChartCloses cs) = Some v \<and> \<not> isFinite v"
    using cell nf by blast
  show "jsonNumber (heatmapCell tf (ChartCloses cs)) = JNull"
    using cell nf by (simp add: jsonNumber_nonfinite)
next
  assume "length (closesOf cs) = 1"
  then show "heatmapRow (\<lambda>_. ChartCloses cs)
        = [(''1h'', None), (''4h'', None), (''1d'', None), (''1w'', None)]"
    by (simp add: heatmapRow_def timeframes_def heatmapCell_short)
qed

theorem heatmap_null_policy_witness:
  "heatmapJson (heatmap [(''Gold'', ''GC=F'')] (\<lambda>_ _. ChartCloses [JNum (Fin 1900)]))
     = [(''Gold'', [(''1h'', JNull), (''4h'', JNull), (''1d'', JNull), (''1w'', JNull)])] \<and>
   heatmapJson (heatmap [(''Gold'', ''GC=F'')] (\<lambda>_ _. ChartThrow))
     = [(''Gold'', [(''1h'', JNull), (''4h'', JNull), (''1d'', JNull), (''1w'', JNull)])] \<and>
   jsonNumber (heatmapCell ''1d'' (ChartCloses [JNum (Fin 0), JNum (Fin 5)])) = JNull \<and>
   heatmapCell ''1d'' (ChartCloses [JNum (Fin 0), JNum (Fin 5)]) = Some PInf \<and>
   map_of (heatmapRow (\<lambda>_. ChartNoData)) ''4h'' = Some None"
proof -
  note t1 = heatmap_null_policy [where cs = "[JNum (Fin 1900)]" and resp = ChartThrow
      and tf = "''4h''" and y = "\<lambda>_. ChartNoData"]
  note t2 = heatmap_null_policy [where cs = "[JNum (Fin 0), JNum (Fin 5)]" and tf = "''1d''"]
  have row1: "heatmapRow (\<lambda>_. ChartCloses [JNum (Fin 1900)])
      = [(''1h'', None), (''4h'', None), (''1d'', None), (''1w'', None)]"
    using t1 by (simp add: closesOf_def)
  have thr: "heatmapCell tf ChartThrow = None" for tf
    using heatmap_null_policy [where resp = ChartThrow and tf = tf] by simp
  have nd: "heatmapCell ''4h'' ChartNoData = None"
    using heatmap_null_policy [where resp = ChartNoData and tf = "''4h''"] by simp
  have "heatmapJson (heatmap [(''Gold'', ''GC=F'')] (\<lambda>_ _. ChartCloses [JNum (Fin 1900)]))
     = [(''Gold'', [(''1h'', JNull), (''4h'', JNull), (''1d'', JNull), (''1w'', JNull)])]"
    by (simp add: heatmapJson_def heatmap_def row1 jsonNumber_def)
  moreover have "heatmapJson (heatmap [(''Gold'', ''GC=F'')] (\<lambda>_ _. ChartThrow))
     = [(''Gold'', [(''1h'', JNull), (''4h'', JNull), (''1d'', JNull), (''1w'', JNull)])]"
    by (simp add: heatmapJson_def heatmap_def heatmapRow_def timeframes_def thr jsonNumber_def)
  moreover have "jsonNumber (heatmapCell ''1d'' (ChartCloses [JNum (Fin 0), JNum (Fin 5)])) = JNull"
    using t2 by (simp add: closesOf_def compareIndex_def numAt_def js_at_def)
  moreover have "heatmapCell ''1d'' (ChartCloses [JNum (Fin 0), JNum (Fin 5)]) = Some PInf"
    by (simp add: heatmapCell_def closesOf_def compareIndex_def numAt_def js_at_def
        pctChange_def js_sub_def)
  moreover have "map_of (heatmapRow (\<lambda>_. ChartNoData)) ''4h'' = Some None"
    using t1 nd by (simp add: timeframes_def)
  ultimately show ?thesis by blast
qed

section \<open>Verification: the caches\<close>

text \<open>
  Claim C6. A stored entry is reused if and only if \<open>now - writtenAt < TTL\<close> of its
  endpoint (60 s for indices, forex, commodities and crypto, 120 s for all-movers, 5 min
  for the two heatmaps, 6 h for the calendar); on reuse the providers are not called. So
  a request that stores a payload at time \<open>t\<close> is followed, at every time \<open>now\<close> with
  \<open>now - t < TTL\<close>, by a request that sends the same payload, calls no provider
  whatever the providers would answer, and leaves the caches as they are; the same
  holds for any two requests inside the window of one stored entry.
\<close>

theorem cache_reuse:
  "ttl Indices = 60000 \<and> ttl Forex = 60000 \<and> ttl Commodities = 60000 \<and> ttl Crypto = 60000 \<and>
   ttl AllMovers = 120000 \<and> ttl ForexHeatmap = 300000 \<and> ttl CryptoHeatmap = 300000 \<and>
   ttl EconomicCalendar = 21600000 \<and>
   (snd (snd (handleRequest ep now fetch st)) = False \<longleftrightarrow>
      payload (st ep) \<noteq> None \<and> now - writtenAt (st ep) < ttl ep) \<and>
   (payload (st ep) = Some p \<and> now - writtenAt (st ep) < ttl ep \<longrightarrow>
      handleRequest ep now fetch st = (Json p, st, False)) \<and>
   (handleRequest ep t0 (Stored q t) st0 = (r1, st1, True) \<and> now - t < ttl ep \<longrightarrow>
      r1 = Json q \<and> handleRequest ep now fetch st1 = (Json q, st1, False)) \<and>
   (handleRequest ep t1 fetch1 st = (r1, st1, False) \<and> now - writtenAt (st ep) < ttl ep \<longrightarrow>
      handleRequest ep now fetch st1 = (r1, st1, False)) \<and>
   (ep' \<noteq> ep \<longrightarrow> fst (snd (handleRequest ep now fetch st)) ep' = st ep')"
proof (intro conjI impI)
  show "snd (snd (handleRequest ep now fetch st)) = False \<longleftrightarrow>
      payload (st ep) \<noteq> None \<and> now - writtenAt (st ep) < ttl ep"
    by (auto simp: handleRequest_def split: option.splits fetched.splits)
next
  assume "payload (st ep) = Some p \<and> now - writtenAt (st ep) < ttl ep"
  then show "handleRequest ep now fetch st = (Json p, st, False)"
    by (simp add: handleRequest_def)
next
  assume a: "handleRequest ep t0 (Stored q t) st0 = (r1, st1, True) \<and> now - t < ttl ep"
  then have st1: "st1 = st0(ep := \<lparr>payload = Some q, writtenAt = t\<rparr>)" and r1: "r1 = Json q"
    by (auto simp: handleRequest_def split: option.splits if_splits)
  show "r1 = Json q" by (rule r1)
  show "handleRequest ep now fetch st1 = (Json q, st1, False)"
    using a unfolding st1 by (simp add: handleRequest_def)
next
  assume a: "handleRequest ep t1 fetch1 st = (r1, st1, False) \<and> now - writtenAt (st ep) < ttl ep"
  then have "st1 = st" and "\<exists>p. payload (st ep) = Some p \<and> r1 = Json p"
    by (auto simp: handleRequest_def split: option.splits if_splits fetched.splits)
  then show "handleRequest ep now fetch st1 = (r1, st1, False)"
    using a by (auto simp: handleRequest_def)
next
  assume "ep' \<noteq> ep"
  then show "fst (snd (handleRequest ep now fetch st)) ep' = st ep'"
    by (auto simp: handleRequest_def split: option.splits fetched.splits)
qed (simp_all add: GENERIC_TTL_def MOVERS_CACHE_TTL_def HEATMAP_TTL_def CALENDAR_TTL_def)

theorem cache_reuse_witness:
  "handleRequest AllMovers 1000 (Stored ''top10'' 5000) initialCaches
     = (Json ''top10'', initialCaches(AllMovers := \<lparr>payload = Some ''top10'', writtenAt = 5000\<rparr>), True) \<and>
   handleRequest AllMovers 124999 Failed
       (initialCaches(AllMovers := \<lparr>payload = Some ''top10'', writtenAt = 5000\<rparr>))
     = (Json ''top10'', initialCaches(AllMovers := \<lparr>payload = Some ''top10'', writtenAt = 5000\<rparr>), False) \<and>
   snd (snd (handleRequest AllMovers 125000 Failed
       (initialCaches(AllMovers := \<lparr>payload = Some ''top10'', writtenAt = 5000\<rparr>)))) = True"
proof -
  let ?st1 = "initialCaches(AllMovers := \<lparr>payload = Some ''top10'', writtenAt = 5000\<rparr>)"
  have first: "handleRequest AllMovers 1000 (Stored ''top10'' 5000) initialCaches
      = (Json ''top10'', ?st1, True)"
    by (simp add: handleRequest_def initialCaches_def)
  have win: "(124999::int) - 5000 < ttl AllMovers"
    by (simp add: MOVERS_CACHE_TTL_def)
  have "handleRequest AllMovers 124999 Failed ?st1 = (Json ''top10'', ?st1, False)"
    using cache_reuse [where ep = AllMovers and ?t0.0 = 1000 and q = "''top10''" and t = 5000
        and ?st0.0 = initialCaches and ?r1.0 = "Json ''top10''" and ?st1.0 = ?st1
        and now = 124999 and fetch = Failed] first win
    by blast
  moreover have "snd (snd (handleRequest AllMovers 125000 Failed ?st1)) = True"
    using cache_reuse [where ep = AllMovers and st = ?st1 and now = 125000 and fetch = Failed]
    by (simp add: MOVERS_CACHE_TTL_def)
  ultimately show ?thesis using first by blast
qed

section \<open>Verification: currency strength\<close>
























section \<open>Verification: the economic calendar\<close>

lemma js_le_trans: "js_le a b \<Longrightarrow> js_le b c \<Longrightarrow> js_le a c"
  using js_ge_trans [of c b a] by (simp add: js_ge_def)

lemma sorted_insertBy_key:
  assumes cmp: "\<And>a b. cmp a b = js_sub (k a) (k b)"
    and nn: "\<not> isNaN (k x)" "\<forall>r \<in> set ys. \<not> isNaN (k r)"
    and sorted: "sorted_wrt (\<lambda>a b. js_le (k a) (k b)) ys"
  shows "sorted_wrt (\<lambda>a b. js_le (k a) (k b)) (insertBy cmp x ys)"
  using nn sorted
proof (induction ys)
  case Nil
  then show ?case by simp
next
  case (Cons y ys)
  show ?case
  proof (cases "js_gt (k x) (k y)")
    case True
    then have "js_le (k y) (k x)"
      by (simp add: js_le_def js_gt_def)
    then show ?thesis
      using True Cons by (auto simp: cmp js_gt_sub_zero set_insertBy)
  next
    case False
    then have xy: "js_le (k x) (k y)"
      using Cons.prems js_not_gt_ge [of "k x" "k y"] by (simp add: js_ge_def)
    have "js_le (k x) (k z)" if "z \<in> set ys" for z
      using xy Cons.prems(3) that js_le_trans by fastforce
    then show ?thesis
      using False xy Cons.prems by (simp add: cmp js_gt_sub_zero)
  qed
qed

lemma sorted_sortBy_key:
  assumes "\<And>a b. cmp a b = js_sub (k a) (k b)" and "\<forall>r \<in> set xs. \<not> isNaN (k r)"
  shows "sorted_wrt (\<lambda>a b. js_le (k a) (k b)) (sortBy cmp xs)"
  using assms(2)
proof (induction xs)
  case Nil
  then show ?case by simp
next
  case (Cons x xs)
  then show ?case
    by (auto intro!: sorted_insertBy_key [OF assms(1)] simp: set_sortBy)
qed

lemma set_map_filter: "set (List.map_filter f xs) = {y. \<exists>x \<in> set xs. f x = Some y}"
  by (induction xs) (auto split: option.splits)

lemma calendarEntry_keys:
  "map fst (calendarEntry clk e t) =
     [''date'', ''time'', ''country'', ''event'', ''actual'', ''forecast'', ''previous'',
      ''importance'', ''currency'', ''rawDateTime'']"
  by (simp add: calendarEntry_def)

lemma calendarEntry_props:
  "getProp (calendarEntry clk e t) ''rawDateTime'' = JDate t"
  "getProp (calendarEntry clk e t) ''importance'' = JStr (importanceOf e)"
  "getProp (calendarEntry clk e t) ''country'' = JStr (orEmpty (country e))"
  "rawTime (calendarEntry clk e t) = Fin (real_of_int t)"
  "countryOf (calendarEntry clk e t) = orEmpty (country e)"
  by (simp_all add: calendarEntry_def getProp_def rawTime_def countryOf_def)

lemma upcomingTime_Some:
  "upcomingTime clk e = Some t \<longleftrightarrow>
     present (event e) \<and> present (country e) \<and> present (date e) \<and>
     parseDate clk (orEmpty (date e)) = Some t \<and> todayMidnight clk \<le> t"
  by (auto simp: upcomingTime_def split: option.splits)

lemma calendar_member:
  assumes "obj \<in> set (calendarEvents clk data)"
  shows "\<exists>e \<in> set data. \<exists>t. upcomingTime clk e = Some t \<and> obj = calendarEntry clk e t \<and>
           isMajor (orEmpty (country e))"
proof -
  from assms have "obj \<in> set (filter (\<lambda>obj. isMajor (countryOf obj))
      (List.map_filter (\<lambda>e. map_option (calendarEntry clk e) (upcomingTime clk e)) data))"
    unfolding calendarEvents_def using in_set_takeD set_sortBy by fastforce
  then have maj: "isMajor (countryOf obj)"
    and "obj \<in> set (List.map_filter (\<lambda>e. map_option (calendarEntry clk e) (upcomingTime clk e)) data)"
    by auto
  then obtain e where e: "e \<in> set data"
      "map_option (calendarEntry clk e) (upcomingTime clk e) = Some obj"
    by (auto simp: set_map_filter)
  then obtain t where "upcomingTime clk e = Some t" "obj = calendarEntry clk e t"
    by auto
  then show ?thesis
    using e(1) maj by (auto simp: calendarEntry_props)
qed

lemma calendar_sorted:
  "sorted_wrt (\<lambda>a b. js_le (rawTime a) (rawTime b)) (calendarEvents clk data)"
proof -
  let ?objs = "filter (\<lambda>obj. isMajor (countryOf obj))
      (List.map_filter (\<lambda>e. map_option (calendarEntry clk e) (upcomingTime clk e)) data)"
  have "\<forall>r \<in> set ?objs. \<not> isNaN (rawTime r)"
    by (auto simp: set_map_filter calendarEntry_props)
  then have "sorted_wrt (\<lambda>a b. js_le (rawTime a) (rawTime b)) (sortBy byDateTime ?objs)"
    by (intro sorted_sortBy_key) (simp_all add: byDateTime_def)
  then show ?thesis
    unfolding calendarEvents_def by (rule sorted_wrt_take)
qed

lemma importanceOf_range: "importanceOf e \<in> {''High'', ''Medium'', ''Low''}"
  by (simp add: importanceOf_def Let_def)

lemma js_includes_iff: "js_includes s k \<longleftrightarrow> (\<exists>p q. s = p @ k @ q)"
proof (induction s)
  case Nil
  then show ?case by simp
next
  case (Cons c s)
  have pre: "take (length k) (c # s) = k \<longleftrightarrow> (\<exists>q. c # s = k @ q)"
    by (metis append_eq_conv_conj append_take_drop_id)
  have "(\<exists>p q. c # s = p @ k @ q) \<longleftrightarrow> (\<exists>q. c # s = k @ q) \<or> (\<exists>p q. s = p @ k @ q)"
  proof
    assume "\<exists>p q. c # s = p @ k @ q"
    then obtain p q where pq: "c # s = p @ k @ q" by blast
    show "(\<exists>q. c # s = k @ q) \<or> (\<exists>p q. s = p @ k @ q)"
    proof (cases p)
      case Nil
      then show ?thesis using pq by auto
    next
      case (Cons a p')
      then have "s = p' @ k @ q" using pq by simp
      then show ?thesis by blast
    qed
  next
    assume "(\<exists>q. c # s = k @ q) \<or> (\<exists>p q. s = p @ k @ q)"
    then show "\<exists>p q. c # s = p @ k @ q"
    proof
      assume "\<exists>q. c # s = k @ q"
      then show ?thesis by (metis append_Nil)
    next
      assume "\<exists>p q. s = p @ k @ q"
      then show ?thesis by (metis append_Cons)
    qed
  qed
  then show ?case using Cons.IH pre by simp
qed

text \<open>
  Claim C9, as amended. The calendar list has at most 100 events. Each of them is built
  from a provider event that has an event name, a country and a date, whose date parses
  to a time not before today's midnight, and whose country contains, or is contained in,
  one of the fixed major-country codes and names (compared in upper case). The list is in
  ascending order of the events' time. Each event has the ten fields date, time, country,
  event, actual, forecast, previous, importance, currency and rawDateTime, in this order.
  The importance is High, Medium or Low after the provider's impact when that is one of
  these three words in any letter case; otherwise High when the event name, in lower
  case, contains one of the high keywords, else Medium when it contains one of the medium
  keywords, else Low.
\<close>

theorem calendar_events:
  "length (calendarEvents clk data) \<le> 100 \<and>
   (\<forall>obj \<in> set (calendarEvents clk data).
      map fst obj =
        [''date'', ''time'', ''country'', ''event'', ''actual'', ''forecast'', ''previous'',
         ''importance'', ''currency'', ''rawDateTime''] \<and>
      (\<exists>e \<in> set data. \<exists>t.
         present (event e) \<and> present (country e) \<and> present (date e) \<and>
         parseDate clk (orEmpty (date e)) = Some t \<and> todayMidnight clk \<le> t \<and>
         isMajor (orEmpty (country e)) \<and>
         obj = calendarEntry clk e t \<and>
         getProp obj ''rawDateTime'' = JDate t \<and>
         getProp obj ''importance'' = JStr (importanceOf e))) \<and>
   sorted_wrt (\<lambda>a b. js_le (rawTime a) (rawTime b)) (calendarEvents clk data) \<and>
   (isMajor co \<longleftrightarrow>
      (\<exists>c \<in> set majorCountries.
         js_includes (toUpperCase co) (toUpperCase c) \<or> js_includes (toUpperCase c) (toUpperCase co))) \<and>
   importanceOf e \<in> {''High'', ''Medium'', ''Low''} \<and>
   (toLowerCase (orEmpty (impact e)) = ''high'' \<longrightarrow> importanceOf e = ''High'') \<and>
   (toLowerCase (orEmpty (impact e)) = ''medium'' \<longrightarrow> importanceOf e = ''Medium'') \<and>
   (toLowerCase (orEmpty (impact e)) = ''low'' \<longrightarrow> importanceOf e = ''Low'') \<and>
   (toLowerCase (orEmpty (impact e)) \<notin> {''high'', ''medium'', ''low''} \<longrightarrow>
      importanceOf e =
        (if \<exists>k \<in> set highKeywords. js_includes (toLowerCase (orEmpty (event e))) k then ''High''
         else if \<exists>k \<in> set mediumKeywords. js_includes (toLowerCase (orEmpty (event e))) k
              then ''Medium''
         else ''Low'')) \<and>
   economicCalendar clk now CalThrow = Failed \<and>
   economicCalendar clk now CalNotArray = Unstored [] \<and>
   economicCalendar clk now (CalArray []) = Unstored [] \<and>
   (data \<noteq> [] \<longrightarrow> economicCalendar clk now (CalArray data) = Stored (calendarEvents clk data) now)"
proof (intro conjI ballI impI)
  show "length (calendarEvents clk data) \<le> 100"
    by (simp add: calendarEvents_def)
  show "sorted_wrt (\<lambda>a b. js_le (rawTime a) (rawTime b)) (calendarEvents clk data)"
    by (rule calendar_sorted)
  show "isMajor co \<longleftrightarrow>
      (\<exists>c \<in> set majorCountries.
         js_includes (toUpperCase co) (toUpperCase c) \<or> js_includes (toUpperCase c) (toUpperCase co))"
    by (simp add: isMajor_def Let_def list_ex_iff)
  show "importanceOf e \<in> {''High'', ''Medium'', ''Low''}"
    by (rule importanceOf_range)
  show "economicCalendar clk now CalThrow = Failed"
    "economicCalendar clk now CalNotArray = Unstored []"
    "economicCalendar clk now (CalArray []) = Unstored []"
    by (simp_all add: economicCalendar_def)
next
  fix obj assume obj: "obj \<in> set (calendarEvents clk data)"
  from calendar_member [OF obj] obtain e t where et: "e \<in> set data"
    "upcomingTime clk e = Some t" "obj = calendarEntry clk e t" "isMajor (orEmpty (country e))"
    by blast
  show "map fst obj =
        [''date'', ''time'', ''country'', ''event'', ''actual'', ''forecast'', ''previous'',
         ''importance'', ''currency'', ''rawDateTime'']"
    using et(3) by (simp add: calendarEntry_keys)
  show "\<exists>e \<in> set data. \<exists>t.
         present (event e) \<and> present (country e) \<and> present (date e) \<and>
         parseDate clk (orEmpty (date e)) = Some t \<and> todayMidnight clk \<le> t \<and>
         isMajor (orEmpty (country e)) \<and>
         obj = calendarEntry clk e t \<and>
         getProp obj ''rawDateTime'' = JDate t \<and>
         getProp obj ''importance'' = JStr (importanceOf e)"
    using et by (auto simp: upcomingTime_Some calendarEntry_props)
next
  assume "toLowerCase (orEmpty (impact e)) = ''high''"
  then show "importanceOf e = ''High''" by (simp add: importanceOf_def)
next
  assume "toLowerCase (orEmpty (impact e)) = ''medium''"
  then show "importanceOf e = ''Medium''" by (simp add: importanceOf_def)
next
  assume "toLowerCase (orEmpty (impact e)) = ''low''"
  then show "importanceOf e = ''Low''" by (simp add: importanceOf_def)
next
  assume "toLowerCase (orEmpty (impact e)) \<notin> {''high'', ''medium'', ''low''}"
  then show "importanceOf e =
        (if \<exists>k \<in> set highKeywords. js_includes (toLowerCase (orEmpty (event e))) k then ''High''
         else if \<exists>k \<in> set mediumKeywords. js_includes (toLowerCase (orEmpty (event e))) k
              then ''Medium''
         else ''Low'')"
    by (simp add: importanceOf_def Let_def list_ex_iff)
next
  assume "data \<noteq> []"
  then show "economicCalendar clk now (CalArray data) = Stored (calendarEvents clk data) now"
    by (simp add: economicCalendar_def)
qed

text \<open>
  The claim gives each event nine fields and no others, and has the list filtered to a
  fixed set of major countries. An upcoming event of country \<^verbatim>\<open>TH\<close> is returned
  (\<^verbatim>\<open>SOUTH AFRICA\<close> contains \<^verbatim>\<open>TH\<close>), and it has a tenth field, \<^verbatim>\<open>rawDateTime\<close>.
\<close>

theorem calendar_fields_counterexample:
  "map (map fst)
     (calendarEvents
        \<lparr>parseDate = (\<lambda>s. Some 1762158600000), isoDate = (\<lambda>t. ''2026-11-03''),
         getHours = (\<lambda>t. 8), getMinutes = (\<lambda>t. 30), todayMidnight = 1762128000000\<rparr>
        [\<lparr>event = Some ''GDP Growth Rate'', country = Some ''TH'',
          date = Some ''2026-11-03 08:30:00'', impact = None, actual = JNull,
          estimate = JNum (Fin 2), previous = JNum (Fin 3), currency = Some ''THB''\<rparr>])
     = [[''date'', ''time'', ''country'', ''event'', ''actual'', ''forecast'', ''previous'',
         ''importance'', ''currency'', ''rawDateTime'']] \<and>
   map countryOf
     (calendarEvents
        \<lparr>parseDate = (\<lambda>s. Some 1762158600000), isoDate = (\<lambda>t. ''2026-11-03''),
         getHours = (\<lambda>t. 8), getMinutes = (\<lambda>t. 30), todayMidnight = 1762128000000\<rparr>
        [\<lparr>event = Some ''GDP Growth Rate'', country = Some ''TH'',
          date = Some ''2026-11-03 08:30:00'', impact = None, actual = JNull,
          estimate = JNum (Fin 2), previous = JNum (Fin 3), currency = Some ''THB''\<rparr>])
     = [''TH''] \<and>
   ''TH'' \<notin> set majorCountries"
  by (simp add: calendarEvents_def upcomingTime_def present_def orEmpty_def calendarEntry_def
      countryOf_def getProp_def isMajor_def majorCountries_def toUpperCase_def
      char_of_def bit_Suc_0_iff)

theorem calendar_events_witness:
  "map (\<lambda>obj. (getProp obj ''event'', getProp obj ''importance'', getProp obj ''rawDateTime''))
     (calendarEvents
        \<lparr>parseDate = (\<lambda>s. if s = ''2026-11-05'' then Some 1762300800000
                           else if s = ''2026-11-04'' then Some 1762214400000
                           else if s = ''2026-10-01'' then Some 1759276800000 else None),
         isoDate = (\<lambda>t. ''2026-11-0x''), getHours = (\<lambda>t. 0), getMinutes = (\<lambda>t. 0),
         todayMidnight = 1762128000000\<rparr>
        [\<lparr>event = Some ''Michigan Consumer Sentiment'', country = Some ''US'',
          date = Some ''2026-11-05'', impact = None, actual = JNull,
          estimate = JNull, previous = JNull, currency = None\<rparr>,
         \<lparr>event = Some ''Bank Holiday'', country = Some ''ZA'',
          date = Some ''2026-11-04'', impact = Some ''HIGH'', actual = JNull,
          estimate = JNull, previous = JNull, currency = Some ''ZAR''\<rparr>,
         \<lparr>event = Some ''CPI'', country = Some ''US'',
          date = Some ''2026-10-01'', impact = None, actual = JNull,
          estimate = JNull, previous = JNull, currency = None\<rparr>,
         \<lparr>event = Some ''CPI'', country = Some ''KR'',
          date = Some ''2026-11-05'', impact = None, actual = JNull,
          estimate = JNull, previous = JNull, currency = None\<rparr>])
     = [(JStr ''Bank Holiday'', JStr ''High'', JDate 1762214400000),
        (JStr ''Michigan Consumer Sentiment'', JStr ''Medium'', JDate 1762300800000)] \<and>
   sorted_wrt (\<lambda>a b. js_le (rawTime a) (rawTime b))
     (calendarEvents
        \<lparr>parseDate = (\<lambda>s. if s = ''2026-11-05'' then Some 1762300800000
                           else if s = ''2026-11-04'' then Some 1762214400000
                           else if s = ''2026-10-01'' then Some 1759276800000 else None),
         isoDate = (\<lambda>t. ''2026-11-0x''), getHours = (\<lambda>t. 0), getMinutes = (\<lambda>t. 0),
         todayMidnight = 1762128000000\<rparr>
        [\<lparr>event = Some ''Michigan Consumer Sentiment'', country = Some ''US'',
          date = Some ''2026-11-05'', impact = None, actual = JNull,
          estimate = JNull, previous = JNull, currency = None\<rparr>,
         \<lparr>event = Some ''Bank Holiday'', country = Some ''ZA'',
          date = Some ''2026-11-04'', impact = Some ''HIGH'', actual = JNull,
          estimate = JNull, previous = JNull, currency = Some ''ZAR''\<rparr>,
         \<lparr>event = Some ''CPI'', country = Some ''US'',
          date = Some ''2026-10-01'', impact = None, actual = JNull,
          estimate = JNull, previous = JNull, currency = None\<rparr>,
         \<lparr>event = Some ''CPI'', country = Some ''KR'',
          date = Some ''2026-11-05'', impact = None, actual = JNull,
          estimate = JNull, previous = JNull, currency = None\<rparr>]) \<and>
   list_all
     (\<lambda>obj. map fst obj =
        [''date'', ''time'', ''country'', ''event'', ''actual'', ''forecast'', ''previous'',
         ''importance'', ''currency'', ''rawDateTime''])
     (calendarEvents
        \<lparr>parseDate = (\<lambda>s. if s = ''2026-11-05'' then Some 1762300800000
                           else if s = ''2026-11-04'' then Some 1762214400000
                           else if s = ''2026-10-01'' then Some 1759276800000 else None),
         isoDate = (\<lambda>t. ''2026-11-0x''), getHours = (\<lambda>t. 0), getMinutes = (\<lambda>t. 0),
         todayMidnight = 1762128000000\<rparr>
        [\<lparr>event = Some ''Michigan Consumer Sentiment'', country = Some ''US'',
          date = Some ''2026-11-05'', impact = None, actual = JNull,
          estimate = JNull, previous = JNull, currency = None\<rparr>,
         \<lparr>event = Some ''Bank Holiday'', country = Some ''ZA'',
          date = Some ''2026-11-04'', impact = Some ''HIGH'', actual = JNull,
          estimate = JNull, previous = JNull, currency = Some ''ZAR''\<rparr>,
         \<lparr>event = Some ''CPI'', country = Some ''US'',
          date = Some ''2026-10-01'', impact = None, actual = JNull,
          estimate = JNull, previous = JNull, currency = None\<rparr>,
         \<lparr>event = Some ''CPI'', country = Some ''KR'',
          date = Some ''2026-11-05'', impact = None, actual = JNull,
          estimate = JNull, previous = JNull, currency = None\<rparr>]) \<and>
   importanceOf
     \<lparr>event = Some ''Bank Holiday'', country = Some ''ZA'',
      date = Some ''2026-11-04'', impact = Some ''HIGH'', actual = JNull,
      estimate = JNull, previous = JNull, currency = Some ''ZAR''\<rparr> = ''High''"
proof -
  let ?clk = "\<lparr>parseDate = (\<lambda>s. if s = ''2026-11-05'' then Some 1762300800000
                           else if s = ''2026-11-04'' then Some 1762214400000
                           else if s = ''2026-10-01'' then Some 1759276800000 else None),
         isoDate = (\<lambda>t. ''2026-11-0x''), getHours = (\<lambda>t. 0), getMinutes = (\<lambda>t. 0),
         todayMidnight = 1762128000000\<rparr>"
  let ?data = "[\<lparr>event = Some ''Michigan Consumer Sentiment'', country = Some ''US'',
          date = Some ''2026-11-05'', impact = None, actual = JNull,
          estimate = JNull, previous = JNull, currency = None\<rparr>,
         \<lparr>event = Some ''Bank Holiday'', country = Some ''ZA'',
          date = Some ''2026-11-04'', impact = Some ''HIGH'', actual = JNull,
          estimate = JNull, previous = JNull, currency = Some ''ZAR''\<rparr>,
         \<lparr>event = Some ''CPI'', country = Some ''US'',
          date = Some ''2026-10-01'', impact = None, actual = JNull,
          estimate = JNull, previous = JNull, currency = None\<rparr>,
         \<lparr>event = Some ''CPI'', country = Some ''KR'',
          date = Some ''2026-11-05'', impact = None, actual = JNull,
          estimate = JNull, previous = JNull, currency = None\<rparr>]"
  have "map (\<lambda>obj. (getProp obj ''event'', getProp obj ''importance'', getProp obj ''rawDateTime''))
      (calendarEvents ?clk ?data)
     = [(JStr ''Bank Holiday'', JStr ''High'', JDate 1762214400000),
        (JStr ''Michigan Consumer Sentiment'', JStr ''Medium'', JDate 1762300800000)]"
    by (simp add: calendarEvents_def upcomingTime_def present_def orEmpty_def calendarEntry_def
        countryOf_def getProp_def isMajor_def majorCountries_def toUpperCase_def toLowerCase_def
        importanceOf_def highKeywords_def mediumKeywords_def byDateTime_def rawTime_def
        js_sub_def js_gt_def char_of_def bit_Suc_0_iff)
  moreover have "sorted_wrt (\<lambda>a b. js_le (rawTime a) (rawTime b)) (calendarEvents ?clk ?data)"
    using calendar_events [where clk = ?clk and data = ?data] by blast
  moreover have "list_all
     (\<lambda>obj. map fst obj =
        [''date'', ''time'', ''country'', ''event'', ''actual'', ''forecast'', ''previous'',
         ''importance'', ''currency'', ''rawDateTime''])
     (calendarEvents ?clk ?data)"
    unfolding list_all_iff
    using calendar_events [where clk = ?clk and data = ?data] by blast
  moreover have "importanceOf
     \<lparr>event = Some ''Bank Holiday'', country = Some ''ZA'',
      date = Some ''2026-11-04'', impact = Some ''HIGH'', actual = JNull,
      estimate = JNull, previous = JNull, currency = Some ''ZAR''\<rparr> = ''High''"
  proof -
    have "toLowerCase (orEmpty (impact
       \<lparr>event = Some ''Bank Holiday'', country = Some ''ZA'',
        date = Some ''2026-11-04'', impact = Some ''HIGH'', actual = JNull,
        estimate = JNull, previous = JNull, currency = Some ''ZAR''\<rparr>)) = ''high''"
      by (simp add: toLowerCase_def orEmpty_def char_of_def bit_Suc_0_iff)
    then show ?thesis
      using calendar_events [where e = "\<lparr>event = Some ''Bank Holiday'', country = Some ''ZA'',
        date = Some ''2026-11-04'', impact = Some ''HIGH'', actual = JNull,
        estimate = JNull, previous = JNull, currency = Some ''ZAR''\<rparr>"]
      by blast
  qed
  ultimately show ?thesis by blast
qed

section \<open>Verification: the South African markets endpoint\<close>

lemma find_filter_same:
  "(\<And>x. P x \<Longrightarrow> Q x) \<Longrightarrow> find P (filter Q xs) = find P xs"
  by (induction xs) auto

lemma usd_zar_is_zar: "pair fx = ''USD/ZAR'' \<Longrightarrow> js_includes (pair fx) ''ZAR''"
  by simp

lemma usdZarRate_zarForex:
  "usdZarRate (zarForex allForex) =
     (case find (\<lambda>fx. pair fx = ''USD/ZAR'') allForex of
        Some usdZarPair \<Rightarrow> price usdZarPair
      | None \<Rightarrow> Some (Fin (1875 / 100)))"
  unfolding usdZarRate_def zarForex_def
  by (subst find_filter_same) (use usd_zar_is_zar in auto)

text \<open>
  Claim C10. When no forex record has the pair \<^verbatim>\<open>USD/ZAR\<close>, in particular when the
  forex request failed and the list is empty, the conversion rate is 18.75; otherwise it
  is the price of the first record with that pair. Either way the response has its four
  parts: the JSE indices, the ZAR pairs, one converted entry per commodity, priced at
  the dollar price times the rate, and the next event.
\<close>

theorem sa_markets_rate:
  "((\<forall>fx \<in> set (upstream forexResp). pair fx \<noteq> ''USD/ZAR'') \<longrightarrow>
      usdZarRate (zarForex (upstream forexResp)) = Some (Fin (1875 / 100))) \<and>
   ((\<exists>fx \<in> set (upstream forexResp). pair fx = ''USD/ZAR'') \<longrightarrow>
      (\<exists>fx \<in> set (upstream forexResp). pair fx = ''USD/ZAR'' \<and>
         find (\<lambda>fx. pair fx = ''USD/ZAR'') (upstream forexResp) = Some fx \<and>
         usdZarRate (zarForex (upstream forexResp)) = price fx)) \<and>
   usdZarRate (zarForex (upstream None)) = Some (Fin (1875 / 100)) \<and>
   sa_indices (saMarkets indicesResp forexResp commoditiesResp)
     = filter (\<lambda>idx. js_includes (i_name idx) ''JSE'' \<or> js_includes (i_symbol idx) ''.JO'')
         (upstream indicesResp) \<and>
   sa_forex (saMarkets indicesResp forexResp commoditiesResp)
     = filter (\<lambda>fx. js_includes (pair fx) ''ZAR'') (upstream forexResp) \<and>
   sa_commodities (saMarkets indicesResp forexResp commoditiesResp)
     = map (\<lambda>comm.
          \<lparr> z_name = c_name comm,
            z_priceZAR = ''R '' @ commas (toFixed 0
               (js_mul (parseFloat (c_price comm))
                  (rateNumber (usdZarRate (zarForex (upstream forexResp)))))),
            z_change = c_change comm,
            z_rawChange = jsonNumber (Some (c_rawChange comm)) \<rparr>)
         (upstream commoditiesResp) \<and>
   sa_nextEvent (saMarkets indicesResp forexResp commoditiesResp)
     = (''SARB Interest Rate Decision'', ''March 27, 2026'') \<and>
   saMarkets None None None
     = \<lparr> sa_indices = [], sa_forex = [], sa_commodities = [],
         sa_nextEvent = (''SARB Interest Rate Decision'', ''March 27, 2026'') \<rparr>"
proof (intro conjI impI)
  assume "\<forall>fx \<in> set (upstream forexResp). pair fx \<noteq> ''USD/ZAR''"
  then have "find (\<lambda>fx. pair fx = ''USD/ZAR'') (upstream forexResp) = None"
    by (simp add: find_None_iff)
  then show "usdZarRate (zarForex (upstream forexResp)) = Some (Fin (1875 / 100))"
    by (simp add: usdZarRate_zarForex)
next
  assume "\<exists>fx \<in> set (upstream forexResp). pair fx = ''USD/ZAR''"
  then obtain fx where fx: "find (\<lambda>fx. pair fx = ''USD/ZAR'') (upstream forexResp) = Some fx"
    by (meson find_None_iff option.exhaust)
  then have "fx \<in> set (upstream forexResp)" "pair fx = ''USD/ZAR''"
    by (auto simp: find_Some_iff)
  then show "\<exists>fx \<in> set (upstream forexResp). pair fx = ''USD/ZAR'' \<and>
         find (\<lambda>fx. pair fx = ''USD/ZAR'') (upstream forexResp) = Some fx \<and>
         usdZarRate (zarForex (upstream forexResp)) = price fx"
    using fx by (auto simp: usdZarRate_zarForex)
next
  show "usdZarRate (zarForex (upstream None)) = Some (Fin (1875 / 100))"
    by (simp add: usdZarRate_def zarForex_def upstream_def)
qed (simp_all add: saMarkets_def Let_def jseIndices_def zarForex_def commoditiesInZAR_def
    upstream_def)

theorem sa_markets_rate_witness:
  "usdZarRate (zarForex (upstream (Some
      [\<lparr>pair = ''EUR/USD'', change = ''+0.10%'', price = Some (Fin 1)\<rparr>,
       \<lparr>pair = ''EUR/ZAR'', change = ''+0.20%'', price = Some (Fin 20)\<rparr>])))
     = Some (Fin (1875 / 100)) \<and>
   usdZarRate (zarForex (upstream (Some
      [\<lparr>pair = ''EUR/ZAR'', change = ''+0.20%'', price = Some (Fin 20)\<rparr>,
       \<lparr>pair = ''USD/ZAR'', change = ''-0.30%'', price = Some (Fin (35 / 2))\<rparr>])))
     = Some (Fin (35 / 2)) \<and>
   map z_priceZAR (sa_commodities (saMarkets None None (Some
      [\<lparr>c_name = ''Gold'', c_symbol = ''Gold'', c_change = ''+1.00%'', c_trend = ''positive'',
        c_price = ''4012.50'', c_rawChange = Fin 1\<rparr>])))
     = [''R 75,234'']"
proof -
  let ?f1 = "Some [\<lparr>pair = ''EUR/USD'', change = ''+0.10%'', price = Some (Fin 1)\<rparr>,
       \<lparr>pair = ''EUR/ZAR'', change = ''+0.20%'', price = Some (Fin 20)\<rparr>]"
  let ?f2 = "Some [\<lparr>pair = ''EUR/ZAR'', change = ''+0.20%'', price = Some (Fin 20)\<rparr>,
       \<lparr>pair = ''USD/ZAR'', change = ''-0.30%'', price = Some (Fin (35 / 2))\<rparr>]"
  let ?c = "Some [\<lparr>c_name = ''Gold'', c_symbol = ''Gold'', c_change = ''+1.00%'',
        c_trend = ''positive'', c_price = ''4012.50'', c_rawChange = Fin 1\<rparr>]"
  have h1: "\<forall>fx \<in> set (upstream ?f1). pair fx \<noteq> ''USD/ZAR''"
    by (simp add: upstream_def)
  have r1: "usdZarRate (zarForex (upstream ?f1)) = Some (Fin (1875 / 100))"
    using sa_markets_rate [where forexResp = ?f1] h1 by blast
  have h2: "\<exists>fx \<in> set (upstream ?f2). pair fx = ''USD/ZAR''"
    by (simp add: upstream_def)
  have "\<exists>fx \<in> set (upstream ?f2). pair fx = ''USD/ZAR'' \<and>
         find (\<lambda>fx. pair fx = ''USD/ZAR'') (upstream ?f2) = Some fx \<and>
         usdZarRate (zarForex (upstream ?f2)) = price fx"
    using sa_markets_rate [where forexResp = ?f2] h2 by blast
  then have r2: "usdZarRate (zarForex (upstream ?f2)) = Some (Fin (35 / 2))"
    by (auto simp: upstream_def)
  have pf: "parseFloat ''4012.50'' = Fin (8025 / 2)"
    by (simp add: parseFloat_def isWhite_def isDigit_def digitsVal_def exponentPart_def)
  have tf: "toFixed 0 (Fin (601875 / 8)) = ''75234''"
    by (simp add: toFixed_def digits.simps char_of_def bit_Suc_0_iff)
  have cm: "commas ''75234'' = ''75,234''"
    by (simp add: commas_def isDigit_def)
  have "sa_commodities (saMarkets None None ?c)
     = map (\<lambda>comm.
          \<lparr> z_name = c_name comm,
            z_priceZAR = ''R '' @ commas (toFixed 0
               (js_mul (parseFloat (c_price comm))
                  (rateNumber (usdZarRate (zarForex (upstream None)))))),
            z_change = c_change comm,
            z_rawChange = jsonNumber (Some (c_rawChange comm)) \<rparr>)
         (upstream ?c)"
    using sa_markets_rate [where indicesResp = None and forexResp = None and commoditiesResp = ?c]
    by blast
  moreover have "usdZarRate (zarForex (upstream None)) = Some (Fin (1875 / 100))"
    using sa_markets_rate by blast
  ultimately have "map z_priceZAR (sa_commodities (saMarkets None None ?c)) = [''R 75,234'']"
    by (simp add: upstream_def rateNumber_def pf tf cm)
  with r1 r2 show ?thesis by blast
qed

end
